theory Spec2Isabelle
  imports Complex_Main "HOL-Library.Multiset" "HOL-Library.Monad_Syntax"
begin

section \<open>Numbers\<close>

text \<open>
  The widget computes with JavaScript numbers, the IEEE 754 doubles. The controller is
  modelled over the real numbers, with every arithmetic operation the exact one, and
  a function of the script whose rounding decides a property is modelled a second
  time, operation by operation as the script rounds it (\<open>lerp_double\<close>,
  \<open>remap_double\<close>, \<open>getGridPosition_double\<close>); \<open>distance\<close>, whose result is compared
  with a threshold, is modelled in that way only. In the exact model the values that
  are no real number (\<^verbatim>\<open>NaN\<close>, \<^verbatim>\<open>Infinity\<close>) arise only from a division or a
  remainder whose divisor is zero. Each such operation whose divisor is not a non-zero
  constant is written out: the function returns an \<open>option\<close>, and \<open>None\<close> says that
  the script has produced \<^verbatim>\<open>NaN\<close> or \<^verbatim>\<open>Infinity\<close> at this point.
\<close>

subsection \<open>Doubles\<close>

text \<open>
  A double is an integer of magnitude below \<open>2 ^ 53\<close> times a power of two not below
  \<open>2 powi - 1074\<close>. An arithmetic operation of the script yields the double that is
  nearest to the exact result, and of two nearest doubles the one with the even
  integer. \<open>rne\<close> rounds a real number to the nearest integer in that way,
  \<open>binade v\<close> is the exponent \<open>e\<close> of a positive \<open>v\<close> from \<open>2 powi e\<close> up to, and
  without, \<open>2 powi (e + 1)\<close>, and \<open>rd v\<close> is the rounded \<open>v\<close>, with no bound on the
  size of the result.
\<close>

definition rne :: "real \<Rightarrow> int" where
  "rne r = (let f = \<lfloor>r\<rfloor>; d = r - of_int f
            in if d < 1 / 2 then f else if 1 / 2 < d then f + 1
               else if even f then f else f + 1)"

function binade_up :: "real \<Rightarrow> int" where
  "binade_up v = (if v < 2 then 0 else 1 + binade_up (v / 2))"
  by pat_completeness auto
termination
proof (relation "measure (\<lambda>v. nat \<lfloor>v\<rfloor>)")
  show "wf (measure (\<lambda>v. nat \<lfloor>v\<rfloor>))" by simp
next
  fix v :: real
  assume "\<not> v < 2"
  then have "v / 2 \<le> v - 1" by simp
  then have "\<lfloor>v / 2\<rfloor> \<le> \<lfloor>v - 1\<rfloor>" by (rule floor_mono)
  moreover have "1 \<le> \<lfloor>v\<rfloor>" using \<open>\<not> v < 2\<close> by linarith
  ultimately show "(v / 2, v) \<in> measure (\<lambda>v. nat \<lfloor>v\<rfloor>)" by simp
qed

function binade_down :: "real \<Rightarrow> int" where
  "binade_down v = (if v \<le> 0 \<or> 1 \<le> v then 0 else binade_down (2 * v) - 1)"
  by pat_completeness auto
termination
proof (relation "measure (\<lambda>v. nat \<lfloor>1 / v\<rfloor>)")
  show "wf (measure (\<lambda>v. nat \<lfloor>1 / v\<rfloor>))" by simp
next
  fix v :: real
  assume a: "\<not> (v \<le> 0 \<or> 1 \<le> v)"
  then have v: "0 < v" "v < 1" by simp_all
  then have t: "1 < 1 / v" by simp
  have "\<lfloor>1 / (2 * v)\<rfloor> < \<lfloor>1 / v\<rfloor>"
  proof (cases "1 / v < 2")
    case True
    then have "1 / (2 * v) < 1" using v by (simp add: field_simps)
    moreover have "0 \<le> 1 / (2 * v)" using v by simp
    ultimately have "\<lfloor>1 / (2 * v)\<rfloor> = 0" by linarith
    moreover have "1 \<le> \<lfloor>1 / v\<rfloor>" using t by linarith
    ultimately show ?thesis by simp
  next
    case False
    then have "1 / (2 * v) \<le> 1 / v - 1" using v by (simp add: field_simps)
    then have "\<lfloor>1 / (2 * v)\<rfloor> \<le> \<lfloor>1 / v - 1\<rfloor>" by (rule floor_mono)
    then show ?thesis by simp
  qed
  moreover have "1 \<le> \<lfloor>1 / v\<rfloor>" using t by linarith
  ultimately show "(2 * v, v) \<in> measure (\<lambda>v. nat \<lfloor>1 / v\<rfloor>)" by auto
qed

declare binade_up.simps [simp del] binade_down.simps [simp del]

definition binade :: "real \<Rightarrow> int" where
  "binade v = (if 1 \<le> v then binade_up v else binade_down v)"

definition rd :: "real \<Rightarrow> real" where
  "rd v = (if v = 0 then 0
           else let e = max (binade \<bar>v\<bar> - 52) (- 1074)
                in of_int (rne (v / 2 powi e)) * 2 powi e)"




subsection \<open>The utility functions\<close>

definition lerp :: "real \<Rightarrow> real \<Rightarrow> real \<Rightarrow> real" where
  "lerp a b t = a + (b - a) * t"

definition clamp :: "real \<Rightarrow> real \<Rightarrow> real \<Rightarrow> real" where
  "clamp v mn mx = min (max v mn) mx"

text \<open>
  \<^verbatim>\<open>remap\<close> divides by \<^verbatim>\<open>inMax - inMin\<close>. With a zero divisor the script yields
  \<^verbatim>\<open>NaN\<close> or an infinity and goes on; the model yields \<open>None\<close>.
\<close>

definition remap :: "real \<Rightarrow> real \<Rightarrow> real \<Rightarrow> real \<Rightarrow> real \<Rightarrow> real option" where
  "remap v inMin inMax outMin outMax =
     (if inMax - inMin = 0 then None
      else Some (outMin + (outMax - outMin) * ((v - inMin) / (inMax - inMin))))"

text \<open>
  \<^verbatim>\<open>distance\<close> as the script computes it: the two differences, their squares, the sum
  and the square root (\<^verbatim>\<open>Math.sqrt\<close>) are rounded one after the other. The positions
  of pointers and cards are far from the size at which a square is an infinity, so the
  result is a number.
\<close>

definition distance :: "real \<Rightarrow> real \<Rightarrow> real \<Rightarrow> real \<Rightarrow> real" where
  "distance x1 y1 x2 y2 =
     rd (sqrt (rd (rd ((rd (x2 - x1))\<^sup>2) + rd ((rd (y2 - y1))\<^sup>2))))"



text \<open>\<^verbatim>\<open>Math.round\<close> rounds to the nearest integer, a half towards plus infinity.\<close>

definition Math_round :: "real \<Rightarrow> int" where
  "Math_round v = \<lfloor>v + 1 / 2\<rfloor>"

definition Math_ceil :: "real \<Rightarrow> int" where
  "Math_ceil v = \<lceil>v\<rceil>"

definition Math_floor :: "real \<Rightarrow> int" where
  "Math_floor v = \<lfloor>v\<rfloor>"

text \<open>
  The operator \<^verbatim>\<open>%\<close> is the remainder of the division truncated towards zero: the result
  has the sign of the dividend. With a zero divisor it is \<^verbatim>\<open>NaN\<close>.
\<close>

definition js_trunc :: "real \<Rightarrow> int" where
  "js_trunc v = (if v < 0 then \<lceil>v\<rceil> else \<lfloor>v\<rfloor>)"

definition js_rem :: "real \<Rightarrow> real \<Rightarrow> real option" where
  "js_rem a b = (if b = 0 then None else Some (a - b * of_int (js_trunc (a / b))))"

section \<open>Data model\<close>

datatype viewMode = Stack | Grid | Expanded

text \<open>
  A DOM element that can be hovered: the element of the card at a position of
  \<^verbatim>\<open>cards\<close>, or the element of a grid clone. Clone elements are created afresh by
  \<^verbatim>\<open>cloneNode\<close>; each gets a number never used before.
\<close>

datatype element = CardElement nat | CloneElement nat

text \<open>
  The fields of \<^verbatim>\<open>class Card\<close>. The coordinates \<^verbatim>\<open>x\<close> and \<^verbatim>\<open>y\<close> are named
  \<open>xPos\<close> and \<open>yPos\<close>. The field \<^verbatim>\<open>scale\<close> is written once by the constructor and never
  read; the smoothing constants of \<^verbatim>\<open>config\<close> are the definitions below. A card's
  \<^verbatim>\<open>element\<close> is \<open>CardElement k\<close> and its \<^verbatim>\<open>stack\<close> is the controller, for the card at
  position \<open>k\<close> of \<^verbatim>\<open>cards\<close>.
\<close>

record card =
  index :: nat
  xPos :: real
  yPos :: real
  rotation :: real
  scaleX :: real
  scaleY :: real
  opacity :: real
  zIndex :: int
  targetX :: real
  targetY :: real
  isDragging :: bool
  dragOffsetX :: real
  dragOffsetY :: real
  pointerDownPos :: "real \<times> real"
  hasDragged :: bool
  lastX :: real
  lastY :: real
  velocityX :: real
  velocityY :: real

definition moveSmoothing :: real where "moveSmoothing = 0.35"
definition rotationSmoothing :: real where "rotationSmoothing = 0.1"
definition onDragRotationSpeed :: real where "onDragRotationSpeed = 2.1"
definition onDragMaxRot :: real where "onDragMaxRot = 25"
definition onDragRotSmoothing :: real where "onDragRotSmoothing = 0.15"
definition onDragScaleSize :: real where "onDragScaleSize = 0.85"

text \<open>The constructor of \<^verbatim>\<open>Card\<close>.\<close>

definition new_Card :: "nat \<Rightarrow> card" where
  "new_Card i =
     \<lparr> index = i, xPos = 0, yPos = 0, rotation = 0, scaleX = 1, scaleY = 1, opacity = 1,
       zIndex = int i, targetX = 0, targetY = 0, isDragging = False,
       dragOffsetX = 0, dragOffsetY = 0, pointerDownPos = (0, 0), hasDragged = False,
       lastX = 0, lastY = 0, velocityX = 0, velocityY = 0 \<rparr>"

text \<open>
  An entry of \<^verbatim>\<open>gridClones\<close>. \<^verbatim>\<open>currentScale\<close> is undefined until the first
  \<^verbatim>\<open>updateGridClones\<close>.
\<close>

record clone =
  cloneElement :: nat
  sourceCard :: nat
  colOffset :: real
  currentScale :: "real option"

text \<open>
  The info panel handed over by the host page: which of its three elements exist.
\<close>

record infoDisplay =
  titleEl :: bool
  descriptionEl :: bool
  innerEl :: bool

text \<open>
  \<^verbatim>\<open>this.options\<close>. The card payload (\<^verbatim>\<open>cardData\<close>, \<^verbatim>\<open>colors\<close>) only fills the page
  and is left out.
\<close>

record options =
  maxCards :: nat
  spawnInterval :: real
  infoDisplayOpt :: "infoDisplay option"
  baseCardWidth :: real
  baseCardHeight :: real
  baseScaleRadius :: "real \<times> real"
  baseSiblingRadius :: "real \<times> real"

text \<open>The callbacks handed to \<^verbatim>\<open>setTimeout\<close>, each with what it has captured.\<close>

datatype timer =
    SpawnTimer nat
  | AfterSpawnTimer
  | TipTimer
  | ResizeTimer
  | FoldOffsetTimer nat real
  | HoverResetTimer
  | TextSwapTimer nat
  | TextDoneTimer

text \<open>
  The fields of \<^verbatim>\<open>class CardStack\<close> (of \<^verbatim>\<open>detailOverlay\<close> and \<^verbatim>\<open>backButton\<close>
  whether they hold an element or \<^verbatim>\<open>null\<close>), followed by what the script reads from its
  surroundings (the window's size, the container's bounding rectangle as left, top,
  width and height) and by the part of the page it changes:
  \<^item> \<open>detailPage\<close>: \<open>None\<close> when the page has no elements \<^verbatim>\<open>detailPage\<close> and
    \<^verbatim>\<open>detailContent\<close>, \<open>Some None\<close> when they are there and empty, \<open>Some (Some k)\<close>
    when they show the content generated for card \<open>k\<close>;
  \<^item> \<open>infoText\<close>: the card whose title and description the info panel holds;
  \<^item> \<open>infoVisible\<close>: the class \<^verbatim>\<open>visible\<close> of the info panel;
  \<^item> \<open>dragTip\<close>: \<open>None\<close> when the page has no element \<^verbatim>\<open>dragTip\<close>, else its class
    \<^verbatim>\<open>visible\<close>;
  \<^item> \<open>hasVisited\<close>: the key of that name in \<^verbatim>\<open>localStorage\<close>;
  \<^item> \<open>pending\<close>: the timers set and not yet run, each with its delay in milliseconds;
  \<^item> \<open>nextElement\<close>: the number of the next clone element.
  Style properties, CSS classes of the cards and pointer capture are not modelled.
\<close>

record cardStack =
  options :: options
  cards :: "card list"
  lastTime :: real
  scaleFactor :: real
  currentTopCardIndex :: int
  isTextAnimating :: bool
  viewMode :: viewMode
  expandedCard :: "nat option"
  previousViewMode :: viewMode
  detailScrollY :: real
  gridClones :: "clone list"
  rowOffsets :: "real list"
  gridHoveredElement :: "element option"
  gridSlideSpeed :: real
  gridTargetSpeed :: real
  expandedFromCloneOffset :: real
  expandedCardIndex :: int
  detailOverlay :: bool
  backButton :: bool
  innerWidth :: real
  innerHeight :: real
  containerRect :: "real \<times> real \<times> real \<times> real"
  detailPage :: "nat option option"
  infoText :: "nat option"
  infoVisible :: bool
  dragTip :: "bool option"
  hasVisited :: bool
  pending :: "(real \<times> timer) list"
  nextElement :: nat

section \<open>The stack controller: geometry\<close>

text \<open>
  A card is referred to by its position \<open>k\<close> in \<^verbatim>\<open>cards\<close>; the script's comparisons of
  card objects (\<^verbatim>\<open>c !== card\<close>) are comparisons of positions. Every operation is meant
  for \<open>k < length (cards st)\<close>.
\<close>

definition getScaledRadius :: "cardStack \<Rightarrow> string \<Rightarrow> real \<times> real" where
  "getScaledRadius st type =
     (let base = (if type = ''scale'' then baseScaleRadius (options st)
                  else baseSiblingRadius (options st))
      in (fst base * scaleFactor st, snd base * scaleFactor st))"

text \<open>
  \<^verbatim>\<open>getAdaptiveGridScale\<close> divides by \<^verbatim>\<open>rows * cardHeight\<close>, which is zero while there
  is no card. A positive numerator then gives \<^verbatim>\<open>Infinity\<close>, which \<^verbatim>\<open>clamp\<close> takes to
  0.9, a negative one \<^verbatim>\<open>-Infinity\<close>, taken to 0.4 (the zero divisor is the product of
  the non-negative \<^verbatim>\<open>rows\<close> and of \<^verbatim>\<open>cardHeight\<close>, and has the sign of the latter), and
  a zero numerator gives \<^verbatim>\<open>NaN\<close>.
\<close>

definition getAdaptiveGridScale :: "cardStack \<Rightarrow> real option" where
  "getAdaptiveGridScale st =
     (let cols = 3 :: real;
          rows = real_of_int (Math_ceil (real (length (cards st)) / cols));
          gap = 16 * scaleFactor st;
          targetHeight = innerHeight st * 0.75;
          cardHeight = baseCardHeight (options st) * scaleFactor st;
          numerator = targetHeight - (rows - 1) * gap;
          divisor = rows * cardHeight
      in if divisor \<noteq> 0 then Some (clamp (numerator / divisor) 0.4 0.9)
         else if numerator = 0 then None
         else if (0 < numerator) = (0 \<le> cardHeight) then Some 0.9
         else Some 0.4)"

text \<open>
  The width of a grid cell and the gap between cells for an adaptive grid scale. The
  script computes them by the same three lines in \<^verbatim>\<open>getGridPosition\<close>, in
  \<^verbatim>\<open>prepareStackFromGrid\<close> and in the timer of \<^verbatim>\<open>expandCard\<close>.
\<close>

definition grid_cardWidth :: "cardStack \<Rightarrow> real \<Rightarrow> real" where
  "grid_cardWidth st gridScale = baseCardWidth (options st) * scaleFactor st * gridScale"

definition grid_gap :: "cardStack \<Rightarrow> real \<Rightarrow> real" where
  "grid_gap st gridScale =
     (let gapMultiplier = 1 + (gridScale - 0.5) / (0.9 - 0.5) * 0.5
      in 16 * scaleFactor st * gapMultiplier)"

text \<open>
  The wrap at the end of \<^verbatim>\<open>getGridPosition\<close>:
  \<^verbatim>\<open>x = ((x % W) + W) % W; if (x > W / 2) x -= W\<close>.
\<close>

definition wrap_x :: "real \<Rightarrow> real \<Rightarrow> real option" where
  "wrap_x x0 totalGridWidth =
     do {
       r1 \<leftarrow> js_rem x0 totalGridWidth;
       x1 \<leftarrow> js_rem (r1 + totalGridWidth) totalGridWidth;
       Some (if x1 > totalGridWidth / 2 then x1 - totalGridWidth else x1)
     }"

record gridPosition =
  pos_x :: real
  pos_y :: real
  pos_row :: nat

text \<open>\<^verbatim>\<open>this.rowOffsets[i] || 0\<close>: an index outside the array reads as 0.\<close>

definition rowOffset_or_0 :: "real list \<Rightarrow> nat \<Rightarrow> real" where
  "rowOffset_or_0 offs i = (if i < length offs then offs ! i else 0)"

definition getGridPosition :: "cardStack \<Rightarrow> nat \<Rightarrow> real \<Rightarrow> gridPosition option" where
  "getGridPosition st cardIndex colOff =
     do {
       let totalCards = length (cards st);
       let cols = (3 :: nat);
       let rows = real_of_int (Math_ceil (real totalCards / real cols));
       let row = nat (Math_floor (real cardIndex / real cols));
       let col = real (cardIndex mod cols) + colOff;
       gridScale \<leftarrow> getAdaptiveGridScale st;
       let cardWidth = grid_cardWidth st gridScale;
       let cardHeight = baseCardHeight (options st) * scaleFactor st * gridScale;
       let gap = grid_gap st gridScale;
       let totalWidth = real cols * cardWidth + (real cols - 1) * gap;
       let totalHeight = rows * cardHeight + (rows - 1) * gap;
       let rowOffset = rowOffset_or_0 (rowOffsets st) (row mod 3);
       let x0 = col * (cardWidth + gap) - totalWidth / 2 + cardWidth / 2 + rowOffset;
       let y = real row * (cardHeight + gap) - totalHeight / 2 + cardHeight / 2;
       let totalGridWidth = (real cols * 5) * (cardWidth + gap);
       x \<leftarrow> wrap_x x0 totalGridWidth;
       Some \<lparr> pos_x = x, pos_y = y, pos_row = row \<rparr>
     }"






section \<open>The stack controller: info panel\<close>

definition showInfoDisplay :: "cardStack \<Rightarrow> cardStack" where
  "showInfoDisplay st =
     (case infoDisplayOpt (options st) of
        None \<Rightarrow> st
      | Some d \<Rightarrow> if \<not> innerEl d then st else st\<lparr>infoVisible := True\<rparr>)"

definition hideGridHoverInfo :: "cardStack \<Rightarrow> cardStack" where
  "hideGridHoverInfo st =
     (case infoDisplayOpt (options st) of
        None \<Rightarrow> st
      | Some d \<Rightarrow> if \<not> innerEl d then st else st\<lparr>infoVisible := False\<rparr>)"

text \<open>
  \<^verbatim>\<open>card.data\<close> is an object for every spawned card (\<^verbatim>\<open>cardData[index] || {}\<close>), so
  the guard \<^verbatim>\<open>!card.data\<close> never holds.
\<close>

definition showGridHoverInfo :: "cardStack \<Rightarrow> nat \<Rightarrow> cardStack" where
  "showGridHoverInfo st k =
     (case infoDisplayOpt (options st) of
        None \<Rightarrow> st
      | Some d \<Rightarrow>
          if \<not> titleEl d \<or> \<not> descriptionEl d \<or> \<not> innerEl d then st
          else st\<lparr>infoText := Some k, infoVisible := True\<rparr>)"

definition updateInfoDisplay :: "cardStack \<Rightarrow> nat \<Rightarrow> bool \<Rightarrow> cardStack" where
  "updateInfoDisplay st k immediate =
     (case infoDisplayOpt (options st) of
        None \<Rightarrow> st
      | Some d \<Rightarrow>
          if \<not> titleEl d \<or> \<not> descriptionEl d \<or> \<not> innerEl d then st
          else if currentTopCardIndex st = int (index (cards st ! k)) \<and> \<not> immediate then st
          else
            let st1 = st\<lparr>currentTopCardIndex := int (index (cards st ! k))\<rparr>
            in if immediate then st1\<lparr>infoText := Some k\<rparr>
               else if isTextAnimating st1 then st1
               else st1\<lparr>isTextAnimating := True, infoVisible := False,
                        pending := pending st1 @ [(250, TextSwapTimer k)]\<rparr>)"

section \<open>The stack controller: z-order\<close>

text \<open>\<^verbatim>\<open>cards.find(c => c.zIndex === z)\<close>, as the position of the card found.\<close>

fun find_zIndex :: "int \<Rightarrow> nat \<Rightarrow> card list \<Rightarrow> nat option" where
  "find_zIndex z i [] = None"
| "find_zIndex z i (c # cs) = (if zIndex c = z then Some i else find_zIndex z (Suc i) cs)"

text \<open>
  The loop of \<^verbatim>\<open>bringToFront\<close> over \<^verbatim>\<open>cards\<close>, from position \<open>i\<close> on. The loop never
  writes to \<^verbatim>\<open>card\<close> itself, so \<^verbatim>\<open>card.zIndex\<close> is the same \<open>z\<close> in every round.
\<close>

fun bringToFront_loop :: "nat \<Rightarrow> int \<Rightarrow> nat \<Rightarrow> card list \<Rightarrow> card list" where
  "bringToFront_loop k z i [] = []"
| "bringToFront_loop k z i (c # cs) =
     (if i \<noteq> k \<and> zIndex c > z then c\<lparr>zIndex := zIndex c - 1\<rparr> else c)
       # bringToFront_loop k z (Suc i) cs"

definition setZIndex :: "card list \<Rightarrow> nat \<Rightarrow> int \<Rightarrow> card list" where
  "setZIndex cs k z = cs[k := (cs ! k)\<lparr>zIndex := z\<rparr>]"

definition bringToFront :: "cardStack \<Rightarrow> nat \<Rightarrow> cardStack" where
  "bringToFront st k =
     (let maxIndex = int (length (cards st)) - 1;
          cs = bringToFront_loop k (zIndex (cards st ! k)) 0 (cards st);
          cs' = setZIndex cs k maxIndex
      in updateInfoDisplay (st\<lparr>cards := cs'\<rparr>) k False)"

text \<open>The loop of \<^verbatim>\<open>updateCardOrder\<close>, which skips \<^verbatim>\<open>draggedCard\<close>.\<close>

fun updateCardOrder_loop :: "nat \<Rightarrow> int \<Rightarrow> int \<Rightarrow> nat \<Rightarrow> card list \<Rightarrow> card list" where
  "updateCardOrder_loop k newIndex oldIndex i [] = []"
| "updateCardOrder_loop k newIndex oldIndex i (c # cs) =
     (if i = k then c
      else if newIndex < oldIndex then
        (if zIndex c \<ge> newIndex \<and> zIndex c < oldIndex then c\<lparr>zIndex := zIndex c + 1\<rparr> else c)
      else
        (if zIndex c \<le> newIndex \<and> zIndex c > oldIndex then c\<lparr>zIndex := zIndex c - 1\<rparr> else c))
       # updateCardOrder_loop k newIndex oldIndex (Suc i) cs"

definition updateCardOrder :: "cardStack \<Rightarrow> nat \<Rightarrow> int \<Rightarrow> cardStack" where
  "updateCardOrder st k newIndex =
     (let oldIndex = zIndex (cards st ! k);
          maxIndex = int (length (cards st)) - 1
      in if newIndex = oldIndex then st
         else
           let cs = updateCardOrder_loop k newIndex oldIndex 0 (cards st);
               cs' = setZIndex cs k newIndex;
               st' = st\<lparr>cards := cs'\<rparr>
           in case find_zIndex maxIndex 0 cs' of
                None \<Rightarrow> st'
              | Some t \<Rightarrow> updateInfoDisplay st' t False)"

section \<open>The stack controller: view modes\<close>

text \<open>
  \<^verbatim>\<open>createGridClones\<close>: four clones for each card, in the order of the two nested
  loops. \<open>k\<close> is the position of the card and \<open>e\<close> the number of the next new element.
\<close>

fun createGridClones_loop :: "nat \<Rightarrow> nat \<Rightarrow> card list \<Rightarrow> clone list" where
  "createGridClones_loop k e [] = []"
| "createGridClones_loop k e (c # cs) =
     map (\<lambda>j. \<lparr> cloneElement = e + j, sourceCard = k,
                colOffset = ([- 2, - 1, 1, 2] ! j) * 3, currentScale = None \<rparr>) [0..<4]
       @ createGridClones_loop (Suc k) (e + 4) cs"

definition createGridClones :: "cardStack \<Rightarrow> cardStack" where
  "createGridClones st =
     st\<lparr>gridClones := createGridClones_loop 0 (nextElement st) (cards st),
        nextElement := nextElement st + 4 * length (cards st)\<rparr>"

definition destroyGridClones :: "cardStack \<Rightarrow> cardStack" where
  "destroyGridClones st = st\<lparr>gridClones := []\<rparr>"

text \<open>
  The two \<^verbatim>\<open>while\<close> loops of \<^verbatim>\<open>prepareStackFromGrid\<close>. Nothing in the script bounds
  the number of their rounds, so they are partial functions: \<open>None\<close> is a loop that
  never ends.
\<close>

partial_function (option) wrap_down :: "real \<Rightarrow> real \<Rightarrow> real option" where
  "wrap_down w g = (if w > g / 2 then wrap_down (w - g) g else Some w)"

partial_function (option) wrap_up :: "real \<Rightarrow> real \<Rightarrow> real option" where
  "wrap_up w g = (if w < - g / 2 then wrap_up (w + g) g else Some w)"

text \<open>
  The loop of \<^verbatim>\<open>prepareStackFromGrid\<close> over the cards. It writes only the cards'
  coordinates, which \<^verbatim>\<open>getGridPosition\<close> does not read, so every round sees the
  controller \<open>st\<close> as it was before the loop.
\<close>

fun prepareStackFromGrid_loop :: "cardStack \<Rightarrow> real \<Rightarrow> card list \<Rightarrow> card list option" where
  "prepareStackFromGrid_loop st gridWidth [] = Some []"
| "prepareStackFromGrid_loop st gridWidth (c # cs) =
     do {
       pos \<leftarrow> getGridPosition st (index c) 0;
       w1 \<leftarrow> wrap_down (pos_x pos) gridWidth;
       w2 \<leftarrow> wrap_up w1 gridWidth;
       rest \<leftarrow> prepareStackFromGrid_loop st gridWidth cs;
       Some (c\<lparr>xPos := w2, yPos := pos_y pos\<rparr> # rest)
     }"

definition prepareStackFromGrid :: "cardStack \<Rightarrow> cardStack option" where
  "prepareStackFromGrid st =
     do {
       gridScale \<leftarrow> getAdaptiveGridScale st;
       let cardWidth = grid_cardWidth st gridScale;
       let gap = grid_gap st gridScale;
       let cols = (3 :: real);
       let gridWidth = cols * (cardWidth + gap);
       cs \<leftarrow> prepareStackFromGrid_loop st gridWidth (cards st);
       Some (st\<lparr>cards := cs\<rparr>)
     }"

text \<open>
  \<^verbatim>\<open>toggleViewMode\<close> returns the new view mode, which is the \<open>viewMode\<close> of the
  controller returned here.
\<close>

definition toggleViewMode :: "cardStack \<Rightarrow> cardStack option" where
  "toggleViewMode st =
     (if viewMode st = Stack then
        Some (hideGridHoverInfo (createGridClones
          (st\<lparr>viewMode := Grid, rowOffsets := [0, 0, 0],
              expandedFromCloneOffset := 0, expandedCardIndex := - 1\<rparr>)))
      else
        do {
          st1 \<leftarrow> prepareStackFromGrid st;
          let st2 = (destroyGridClones st1)\<lparr>viewMode := Stack\<rparr>;
          let st3 = (case find_zIndex (int (length (cards st2)) - 1) 0 (cards st2) of
                       None \<Rightarrow> st2
                     | Some t \<Rightarrow> updateInfoDisplay st2 t True);
          Some (showInfoDisplay st3)
        })"

section \<open>The stack controller: expand and collapse\<close>

text \<open>What a clicked clone hands to \<^verbatim>\<open>expandCard\<close>.\<close>

record fromPosition =
  fp_x :: real
  fp_y :: real
  fp_width :: real
  fp_height :: real
  fp_colOffset :: real

definition showDetailPage :: "cardStack \<Rightarrow> nat \<Rightarrow> cardStack" where
  "showDetailPage st k =
     (let st1 = st\<lparr>detailOverlay := True, backButton := True\<rparr>
      in case detailPage st1 of
           None \<Rightarrow> st1
         | Some _ \<Rightarrow> st1\<lparr>detailScrollY := 0, detailPage := Some (Some k)\<rparr>)"

definition hideDetailPage :: "cardStack \<Rightarrow> cardStack" where
  "hideDetailPage st =
     (let st1 = (case detailPage st of
                   None \<Rightarrow> st
                 | Some _ \<Rightarrow> st\<lparr>detailPage := Some None\<rparr>)
      in st1\<lparr>detailOverlay := False, backButton := False, detailScrollY := 0\<rparr>)"

text \<open>
  \<^verbatim>\<open>fromPosition?.colOffset || 0\<close> is the column offset when there is one, and 0 also
  when the offset is 0. The timer is set when the offset is not 0.
\<close>

definition expandCard :: "cardStack \<Rightarrow> nat \<Rightarrow> fromPosition option \<Rightarrow> cardStack" where
  "expandCard st k fromPos =
     (let st1 = st\<lparr>expandedFromCloneOffset :=
                      (case fromPos of None \<Rightarrow> 0 | Some p \<Rightarrow> fp_colOffset p),
                    expandedCardIndex := int (index (cards st ! k))\<rparr>;
          st2 = (case fromPos of
                   None \<Rightarrow> st1
                 | Some p \<Rightarrow>
                     st1\<lparr>cards := (cards st1)[k := (cards st1 ! k)
                       \<lparr>xPos := fp_x p - innerWidth st1 / 2 + fp_width p / 2,
                        yPos := fp_y p - innerHeight st1 / 2 + fp_height p / 2\<rparr>]\<rparr>);
          st3 = st2\<lparr>previousViewMode := viewMode st2\<rparr>;
          st4 = st3\<lparr>viewMode := Expanded, expandedCard := Some k\<rparr>;
          st5 = showDetailPage st4 k
      in case fromPos of
           None \<Rightarrow> st5
         | Some p \<Rightarrow>
             if fp_colOffset p \<noteq> 0 \<and> previousViewMode st5 = Grid
             then st5\<lparr>pending := pending st5 @ [(300, FoldOffsetTimer k (fp_colOffset p))]\<rparr>
             else st5)"

definition collapseCard :: "cardStack \<Rightarrow> cardStack" where
  "collapseCard st =
     (let st1 = (case expandedCard st of
                   None \<Rightarrow> st
                 | Some k \<Rightarrow> st\<lparr>cards := setZIndex (cards st) k (int (length (cards st)) - 1)\<rparr>);
          st2 = st1\<lparr>viewMode := previousViewMode st1\<rparr>;
          st3 = hideDetailPage (st2\<lparr>expandedCard := None\<rparr>)
      in if previousViewMode st3 = Grid
         then st3\<lparr>pending := pending st3 @ [(500, HoverResetTimer)]\<rparr>
         else showInfoDisplay st3)"

section \<open>The stack controller: construction and timers\<close>

definition updateSizes :: "cardStack \<Rightarrow> cardStack" where
  "updateSizes st =
     (let viewportMin = min (innerWidth st) (innerHeight st);
          baseViewport = 800
      in st\<lparr>scaleFactor := clamp (viewportMin / baseViewport) 0.4 1.5\<rparr>)"

definition spawnCard :: "cardStack \<Rightarrow> nat \<Rightarrow> cardStack" where
  "spawnCard st i =
     (let st1 = st\<lparr>cards := cards st @ [new_Card i]\<rparr>
      in if int i = int (maxCards (options st1)) - 1
         then updateInfoDisplay st1 (length (cards st)) True
         else st1)"

definition spawnAllCards :: "cardStack \<Rightarrow> cardStack" where
  "spawnAllCards st =
     st\<lparr>pending := pending st
        @ map (\<lambda>i. (real i * spawnInterval (options st), SpawnTimer i))
            [0..<maxCards (options st)]\<rparr>"

definition showFirstTimeTip :: "cardStack \<Rightarrow> cardStack" where
  "showFirstTimeTip st =
     (if hasVisited st then st
      else case dragTip st of
             None \<Rightarrow> st
           | Some _ \<Rightarrow> st\<lparr>dragTip := Some True, pending := pending st @ [(3000, TipTimer)]\<rparr>)"

text \<open>
  What the host page passes as \<^verbatim>\<open>options\<close>, and what the constructor finds around it.
  \<^verbatim>\<open>options.maxCards || 8\<close> and \<^verbatim>\<open>options.spawnInterval || 100\<close> take the default
  also for the value 0. The constructor reads no radius band and no card size from
  \<^verbatim>\<open>options\<close>; a host may still put them there, as any other property.
\<close>

record hostOptions =
  host_maxCards :: "nat option"
  host_spawnInterval :: "real option"
  host_infoDisplay :: "infoDisplay option"
  host_baseScaleRadius :: "(real \<times> real) option"
  host_baseSiblingRadius :: "(real \<times> real) option"

record window =
  performance_now :: real
  window_innerWidth :: real
  window_innerHeight :: real
  container_rect :: "real \<times> real \<times> real \<times> real"
  has_detailPage :: bool
  has_dragTip :: bool
  stored_hasVisited :: bool

text \<open>
  \<open>CardStack_constructor\<close> is the body of the constructor for an \<^verbatim>\<open>options\<close> object and
  a container element.
\<close>

definition CardStack_constructor :: "hostOptions \<Rightarrow> window \<Rightarrow> cardStack" where
  "CardStack_constructor opts w =
     (let st = \<lparr> options =
                   \<lparr> maxCards = (case host_maxCards opts of
                                    None \<Rightarrow> 8 | Some n \<Rightarrow> if n = 0 then 8 else n),
                     spawnInterval = (case host_spawnInterval opts of
                                    None \<Rightarrow> 100 | Some r \<Rightarrow> if r = 0 then 100 else r),
                     infoDisplayOpt = host_infoDisplay opts,
                     baseCardWidth = 400,
                     baseCardHeight = 400,
                     baseScaleRadius = (100, 300),
                     baseSiblingRadius = (150, 350) \<rparr>,
                 cards = [],
                 lastTime = performance_now w,
                 scaleFactor = 1,
                 currentTopCardIndex = - 1,
                 isTextAnimating = False,
                 viewMode = Stack,
                 expandedCard = None,
                 previousViewMode = Stack,
                 detailScrollY = 0,
                 gridClones = [],
                 rowOffsets = [0, 0, 0],
                 gridHoveredElement = None,
                 gridSlideSpeed = 21,
                 gridTargetSpeed = 21,
                 expandedFromCloneOffset = 0,
                 expandedCardIndex = - 1,
                 detailOverlay = False,
                 backButton = False,
                 innerWidth = window_innerWidth w,
                 innerHeight = window_innerHeight w,
                 containerRect = container_rect w,
                 detailPage = (if has_detailPage w then Some None else None),
                 infoText = None,
                 infoVisible = False,
                 dragTip = (if has_dragTip w then Some False else None),
                 hasVisited = stored_hasVisited w,
                 pending = [],
                 nextElement = 0 \<rparr>
      in spawnAllCards (updateSizes st))"

text \<open>
  \<open>construction\<close> is the result of \<^verbatim>\<open>new CardStack(container, options)\<close> as the caller
  sees it: an exception or the new object. The constructor has no \<^verbatim>\<open>throw\<close>, and it
  validates nothing. The language raises a \<^verbatim>\<open>TypeError\<close> in two places:

    \<^item> \<^verbatim>\<open>options.maxCards\<close> (the first read of \<^verbatim>\<open>options\<close>) when \<^verbatim>\<open>options\<close> is
      \<^verbatim>\<open>null\<close>; an omitted or \<^verbatim>\<open>undefined\<close> argument takes the default \<^verbatim>\<open>{}\<close>, an
      object without any property;
    \<^item> \<^verbatim>\<open>this.container.style\<close> in \<^verbatim>\<open>updateSizes\<close> when the container is no element
      (\<^verbatim>\<open>null\<close>, \<^verbatim>\<open>undefined\<close>).

  The first argument of \<open>construction\<close> says whether the container is an element.
\<close>

datatype exception = TypeError

datatype optionsArgument = Omitted | Null | Options hostOptions

definition no_options :: hostOptions where
  "no_options =
     \<lparr> host_maxCards = None, host_spawnInterval = None, host_infoDisplay = None,
       host_baseScaleRadius = None, host_baseSiblingRadius = None \<rparr>"

definition construction :: "bool \<Rightarrow> optionsArgument \<Rightarrow> window \<Rightarrow> exception + cardStack" where
  "construction container arg w =
     (case arg of
        Null \<Rightarrow> Inl TypeError
      | Omitted \<Rightarrow>
          if container then Inr (CardStack_constructor no_options w) else Inl TypeError
      | Options opts \<Rightarrow>
          if container then Inr (CardStack_constructor opts w) else Inl TypeError)"

section \<open>Cards: pointer and hover events\<close>

definition upd_card :: "cardStack \<Rightarrow> nat \<Rightarrow> (card \<Rightarrow> card) \<Rightarrow> cardStack" where
  "upd_card st k f = st\<lparr>cards := (cards st)[k := f (cards st ! k)]\<rparr>"

definition onMouseEnter :: "cardStack \<Rightarrow> nat \<Rightarrow> cardStack" where
  "onMouseEnter st k =
     (if viewMode st = Grid
      then showGridHoverInfo
             (st\<lparr>gridHoveredElement := Some (CardElement k), gridTargetSpeed := 0\<rparr>) k
      else st)"

definition onMouseLeave :: "cardStack \<Rightarrow> nat \<Rightarrow> cardStack" where
  "onMouseLeave st k =
     (if viewMode st = Grid
      then hideGridHoverInfo (st\<lparr>gridHoveredElement := None, gridTargetSpeed := 21\<rparr>)
      else st)"

definition container_center :: "cardStack \<Rightarrow> real \<times> real" where
  "container_center st =
     (case containerRect st of
        (rleft, rtop, rwidth, rheight) \<Rightarrow> (rleft + rwidth / 2, rtop + rheight / 2))"

text \<open>The pointer events carry \<^verbatim>\<open>clientX\<close> and \<^verbatim>\<open>clientY\<close>.\<close>

definition onPointerDown :: "cardStack \<Rightarrow> nat \<Rightarrow> real \<Rightarrow> real \<Rightarrow> cardStack" where
  "onPointerDown st k clientX clientY =
     (if viewMode st = Expanded then st
      else
        let st1 = upd_card st k
                    (\<lambda>c. c\<lparr>pointerDownPos := (clientX, clientY), hasDragged := False\<rparr>)
        in if viewMode st1 = Grid then st1
           else
             let (centerX, centerY) = container_center st1;
                 st2 = upd_card st1 k
                         (\<lambda>c. c\<lparr>isDragging := True,
                                dragOffsetX := clientX - centerX - xPos c,
                                dragOffsetY := clientY - centerY - yPos c,
                                lastX := clientX, lastY := clientY\<rparr>)
             in bringToFront st2 k)"

definition onPointerMove :: "cardStack \<Rightarrow> nat \<Rightarrow> real \<Rightarrow> real \<Rightarrow> cardStack" where
  "onPointerMove st k clientX clientY =
     (let c = cards st ! k;
          dst = distance (fst (pointerDownPos c)) (snd (pointerDownPos c)) clientX clientY;
          st1 = (if dst > 10 then
                   let st' = upd_card st k (\<lambda>c. c\<lparr>hasDragged := True\<rparr>)
                   in if dragTip st' = Some True
                      then st'\<lparr>dragTip := Some False, hasVisited := True\<rparr>
                      else st'
                 else st)
      in if \<not> isDragging (cards st1 ! k) then st1
         else
           let (centerX, centerY) = container_center st1
           in upd_card st1 k
                (\<lambda>c. c\<lparr>targetX := clientX - centerX - dragOffsetX c,
                       targetY := clientY - centerY - dragOffsetY c,
                       velocityX := clientX - lastX c,
                       velocityY := clientY - lastY c,
                       lastX := clientX, lastY := clientY\<rparr>))"

definition onPointerUp :: "cardStack \<Rightarrow> nat \<Rightarrow> cardStack" where
  "onPointerUp st k =
     (if \<not> hasDragged (cards st ! k) \<and> viewMode st \<noteq> Expanded
      then expandCard (upd_card st k (\<lambda>c. c\<lparr>isDragging := False\<rparr>)) k None
      else if \<not> isDragging (cards st ! k) then st
      else upd_card st k (\<lambda>c. c\<lparr>isDragging := False, targetX := 0, targetY := 0\<rparr>))"

section \<open>Cards: the update of each frame\<close>

text \<open>
  The computation of \<^verbatim>\<open>newIndex\<close> in \<^verbatim>\<open>updateZIndexFromDistance\<close>, for the card count
  \<open>n\<close> and the scaled sibling band.
\<close>

definition newIndex_from_distance :: "cardStack \<Rightarrow> real \<Rightarrow> int option" where
  "newIndex_from_distance st dst =
     do {
       let siblingRadius = getScaledRadius st ''sibling'';
       let clampedDist = clamp dst (fst siblingRadius) (snd siblingRadius);
       let maxIndex = int (length (cards st)) - 1;
       r \<leftarrow> remap clampedDist (fst siblingRadius) (snd siblingRadius) (real_of_int maxIndex) 0;
       Some (Math_round r)
     }"

definition updateZIndexFromDistance :: "cardStack \<Rightarrow> nat \<Rightarrow> real \<Rightarrow> cardStack option" where
  "updateZIndexFromDistance st k dst =
     do {
       newIndex \<leftarrow> newIndex_from_distance st dst;
       Some (if newIndex \<noteq> zIndex (cards st ! k) then updateCardOrder st k newIndex else st)
     }"

text \<open>
  Neither \<^verbatim>\<open>updateDragging\<close> nor \<^verbatim>\<open>updateIdle\<close> reads its parameter \<^verbatim>\<open>dt\<close>.
\<close>

definition updateDragging :: "cardStack \<Rightarrow> nat \<Rightarrow> real \<Rightarrow> cardStack option" where
  "updateDragging st k dt =
     do {
       let st1 = upd_card st k
                   (\<lambda>c. c\<lparr>xPos := lerp (xPos c) (targetX c) moveSmoothing,
                          yPos := lerp (yPos c) (targetY c) moveSmoothing\<rparr>);
       let dst = distance 0 0 (xPos (cards st1 ! k)) (yPos (cards st1 ! k));
       let targetRotation = clamp (velocityX (cards st1 ! k) * onDragRotationSpeed)
                                  (- onDragMaxRot) onDragMaxRot;
       let st2 = upd_card st1 k
                   (\<lambda>c. c\<lparr>rotation := lerp (rotation c) targetRotation onDragRotSmoothing\<rparr>);
       let scaleClampRadius = getScaledRadius st2 ''scale'';
       let clampedDist = clamp dst (fst scaleClampRadius) (snd scaleClampRadius);
       targetScale \<leftarrow> remap clampedDist (fst scaleClampRadius) (snd scaleClampRadius)
                        1 onDragScaleSize;
       let st3 = upd_card st2 k
                   (\<lambda>c. c\<lparr>scaleX := lerp (scaleX c) targetScale 0.3,
                          scaleY := lerp (scaleY c) targetScale 0.3\<rparr>);
       st4 \<leftarrow> updateZIndexFromDistance st3 k dst;
       Some (upd_card st4 k
               (\<lambda>c. c\<lparr>velocityX := velocityX c * 0.9, velocityY := velocityY c * 0.9\<rparr>))
     }"

definition updateIdle :: "cardStack \<Rightarrow> nat \<Rightarrow> real \<Rightarrow> cardStack option" where
  "updateIdle st k dt =
     do {
       st1 \<leftarrow>
         (if viewMode st = Expanded then
            (if expandedCard st = Some k then
               let bannerY = - innerHeight st / 2 + innerHeight st * 0.075
               in Some (upd_card st k
                    (\<lambda>c. c\<lparr>xPos := lerp (xPos c) 0 moveSmoothing,
                           yPos := lerp (yPos c) bannerY moveSmoothing,
                           rotation := lerp (rotation c) 0 rotationSmoothing,
                           scaleX := lerp (scaleX c) 1 0.15,
                           scaleY := lerp (scaleY c) 1 0.15,
                           opacity := lerp (opacity c) 0 0.1\<rparr>))
             else
               Some (upd_card st k
                    (\<lambda>c. c\<lparr>opacity := lerp (opacity c) 0 0.15,
                           scaleX := lerp (scaleX c) 0.8 0.15,
                           scaleY := lerp (scaleY c) 0.8 0.15\<rparr>)))
          else if viewMode st = Grid then
            do {
              let colOff = (if int (index (cards st ! k)) = expandedCardIndex st
                            then expandedFromCloneOffset st else 0);
              gridPos \<leftarrow> getGridPosition st (index (cards st ! k)) colOff;
              baseScale \<leftarrow> getAdaptiveGridScale st;
              let targetScale =
                    (case gridHoveredElement st of
                       None \<Rightarrow> baseScale
                     | Some e \<Rightarrow> if e = CardElement k then baseScale * 1.05
                                 else baseScale * 0.95);
              let z = (case gridHoveredElement st of
                         None \<Rightarrow> int (index (cards st ! k))
                       | Some e \<Rightarrow> if e = CardElement k then 100
                                   else int (index (cards st ! k)));
              Some (upd_card st k
                    (\<lambda>c. c\<lparr>xPos := lerp (xPos c) (pos_x gridPos) moveSmoothing,
                           yPos := lerp (yPos c) (pos_y gridPos) moveSmoothing,
                           rotation := lerp (rotation c) 0 rotationSmoothing,
                           zIndex := z,
                           scaleX := lerp (scaleX c) targetScale 0.15,
                           scaleY := lerp (scaleY c) targetScale 0.15,
                           opacity := lerp (opacity c) 1 0.25\<rparr>))
            }
          else
            let yOffsetPerCard = - 10 :: real;
                n = real (length (cards st));
                reverseIndex = n - 1 - real_of_int (zIndex (cards st ! k));
                totalOffset = (n - 1) * yOffsetPerCard;
                cardYOffset = reverseIndex * yOffsetPerCard - totalOffset / 2;
                targetRotation = reverseIndex * (100 / (n + 1))
            in Some (upd_card st k
                    (\<lambda>c. c\<lparr>xPos := lerp (xPos c) 0 moveSmoothing,
                           yPos := lerp (yPos c) cardYOffset moveSmoothing,
                           rotation := lerp (rotation c) targetRotation rotationSmoothing,
                           scaleX := lerp (scaleX c) 1 0.25,
                           scaleY := lerp (scaleY c) 1 0.25,
                           opacity := lerp (opacity c) 1 0.25\<rparr>)));
       Some (upd_card st1 k
               (\<lambda>c. c\<lparr>velocityX := velocityX c * 0.9, velocityY := velocityY c * 0.9\<rparr>))
     }"

text \<open>\<^verbatim>\<open>applyTransform\<close> only writes style properties.\<close>

definition update :: "cardStack \<Rightarrow> nat \<Rightarrow> real \<Rightarrow> cardStack option" where
  "update st k deltaTime =
     (let dt = min deltaTime 0.05
      in if isDragging (cards st ! k) then updateDragging st k dt else updateIdle st k dt)"

section \<open>The animation loop\<close>

text \<open>
  The script adds to \<^verbatim>\<open>rowOffsets[0]\<close>, \<^verbatim>\<open>rowOffsets[1]\<close> and \<^verbatim>\<open>rowOffsets[2]\<close>; the
  array has three entries whenever it is assigned.
\<close>

definition updateGridSliding :: "cardStack \<Rightarrow> real \<Rightarrow> cardStack" where
  "updateGridSliding st dt =
     (let st1 = st\<lparr>gridSlideSpeed := lerp (gridSlideSpeed st) (gridTargetSpeed st) 0.1\<rparr>;
          offs0 = rowOffsets st1;
          offs1 = offs0[0 := offs0 ! 0 + gridSlideSpeed st1 * dt];
          offs2 = offs1[1 := offs1 ! 1 - gridSlideSpeed st1 * dt];
          offs3 = offs2[2 := offs2 ! 2 + gridSlideSpeed st1 * dt]
      in st1\<lparr>rowOffsets := offs3\<rparr>)"

text \<open>
  \<^verbatim>\<open>updateGridClones\<close> keeps of each clone only \<^verbatim>\<open>currentScale\<close>; the position it
  computes goes to the clone's style. \<^verbatim>\<open>clone.currentScale || baseScale\<close> takes
  \<^verbatim>\<open>baseScale\<close> for an undefined scale and for the scale 0.
\<close>

definition updateGridClones :: "cardStack \<Rightarrow> cardStack option" where
  "updateGridClones st =
     do {
       baseScale \<leftarrow> getAdaptiveGridScale st;
       Some (st\<lparr>gridClones :=
         map (\<lambda>cl.
           let targetScale =
                 (case gridHoveredElement st of
                    None \<Rightarrow> baseScale
                  | Some e \<Rightarrow> if e = CloneElement (cloneElement cl) then baseScale * 1.05
                              else baseScale * 0.95);
               cur = (case currentScale cl of
                        None \<Rightarrow> baseScale
                      | Some v \<Rightarrow> if v = 0 then baseScale else v)
           in cl\<lparr>currentScale := Some (lerp cur targetScale 0.15)\<rparr>) (gridClones st)\<rparr>)
     }"

text \<open>The loop \<^verbatim>\<open>for (const card of this.cards) card.update(deltaTime)\<close>.\<close>

fun update_loop :: "cardStack \<Rightarrow> real \<Rightarrow> nat list \<Rightarrow> cardStack option" where
  "update_loop st deltaTime [] = Some st"
| "update_loop st deltaTime (k # ks) =
     do { st' \<leftarrow> update st k deltaTime; update_loop st' deltaTime ks }"

definition animate :: "cardStack \<Rightarrow> real \<Rightarrow> cardStack option" where
  "animate st currentTime =
     do {
       let deltaTime = (currentTime - lastTime st) / 1000;
       let st1 = st\<lparr>lastTime := currentTime\<rparr>;
       st2 \<leftarrow> (if viewMode st1 = Grid
               then updateGridClones (updateGridSliding st1 deltaTime)
               else Some st1);
       update_loop st2 deltaTime [0..<length (cards st2)]
     }"

section \<open>Timers and events\<close>

definition run_timer :: "cardStack \<Rightarrow> timer \<Rightarrow> cardStack option" where
  "run_timer st t =
     (case t of
        SpawnTimer i \<Rightarrow>
          (let st1 = spawnCard st i
           in Some (if int i = int (maxCards (options st1)) - 1
                    then st1\<lparr>pending := pending st1 @ [(300, AfterSpawnTimer)]\<rparr>
                    else st1))
      | AfterSpawnTimer \<Rightarrow> Some (showFirstTimeTip (showInfoDisplay st))
      | TipTimer \<Rightarrow> Some (st\<lparr>dragTip := Some False, hasVisited := True\<rparr>)
      | ResizeTimer \<Rightarrow> Some (updateSizes st)
      | FoldOffsetTimer k colOff \<Rightarrow>
          do {
            let cols = (3 :: nat);
            let row = nat (Math_floor (real (index (cards st ! k)) / real cols));
            gridScale \<leftarrow> getAdaptiveGridScale st;
            let cardWidth = grid_cardWidth st gridScale;
            let gap = grid_gap st gridScale;
            let pixelOffset = colOff * (cardWidth + gap);
            Some (st\<lparr>rowOffsets := (rowOffsets st)
                       [row mod 3 := rowOffsets st ! (row mod 3) + pixelOffset],
                     expandedFromCloneOffset := 0,
                     expandedCardIndex := - 1\<rparr>)
          }
      | HoverResetTimer \<Rightarrow> Some (st\<lparr>gridHoveredElement := None, gridTargetSpeed := 21\<rparr>)
      | TextSwapTimer k \<Rightarrow>
          Some (st\<lparr>infoText := Some k, infoVisible := True,
                   pending := pending st @ [(250, TextDoneTimer)]\<rparr>)
      | TextDoneTimer \<Rightarrow> Some (st\<lparr>isTextAnimating := False\<rparr>))"

text \<open>
  What can happen to a controller: the events of its cards and clones, the calls of the
  host page (\<^verbatim>\<open>toggleViewMode\<close>; \<^verbatim>\<open>collapseCard\<close> from the back button, the wheel or a
  touch), a resize of the window, the run of the pending timer at a position of
  \<open>pending\<close>, and an animation frame at a time. An event for a card or a clone
  that is not there runs no listener.
\<close>

datatype event =
    PointerDown nat real real
  | PointerMove nat real real
  | PointerUp nat
  | MouseEnter nat
  | MouseLeave nat
  | CloneClick nat real real real real
  | CloneMouseEnter nat
  | CloneMouseLeave nat
  | ToggleViewMode
  | Collapse
  | Resize real real
  | TimerRuns nat
  | AnimationFrame real

definition resize :: "cardStack \<Rightarrow> real \<Rightarrow> real \<Rightarrow> cardStack" where
  "resize st w h =
     st\<lparr>innerWidth := w, innerHeight := h,
        pending := filter (\<lambda>p. snd p \<noteq> ResizeTimer) (pending st) @ [(100, ResizeTimer)]\<rparr>"

definition step :: "cardStack \<Rightarrow> event \<Rightarrow> cardStack option" where
  "step st ev =
     (case ev of
        PointerDown k cx cy \<Rightarrow>
          Some (if k < length (cards st) then onPointerDown st k cx cy else st)
      | PointerMove k cx cy \<Rightarrow>
          Some (if k < length (cards st) then onPointerMove st k cx cy else st)
      | PointerUp k \<Rightarrow> Some (if k < length (cards st) then onPointerUp st k else st)
      | MouseEnter k \<Rightarrow> Some (if k < length (cards st) then onMouseEnter st k else st)
      | MouseLeave k \<Rightarrow> Some (if k < length (cards st) then onMouseLeave st k else st)
      | CloneClick e rx ry rw rh \<Rightarrow>
          (case find (\<lambda>cl. cloneElement cl = e) (gridClones st) of
             None \<Rightarrow> Some st
           | Some cl \<Rightarrow>
               Some (expandCard st (sourceCard cl)
                 (Some \<lparr> fp_x = rx, fp_y = ry, fp_width = rw, fp_height = rh,
                         fp_colOffset = colOffset cl \<rparr>)))
      | CloneMouseEnter e \<Rightarrow>
          (case find (\<lambda>cl. cloneElement cl = e) (gridClones st) of
             None \<Rightarrow> Some st
           | Some cl \<Rightarrow>
               Some (if viewMode st = Grid
                     then showGridHoverInfo
                            (st\<lparr>gridHoveredElement := Some (CloneElement e),
                                gridTargetSpeed := 0\<rparr>) (sourceCard cl)
                     else st))
      | CloneMouseLeave e \<Rightarrow>
          (case find (\<lambda>cl. cloneElement cl = e) (gridClones st) of
             None \<Rightarrow> Some st
           | Some cl \<Rightarrow>
               Some (if viewMode st = Grid
                     then hideGridHoverInfo
                            (st\<lparr>gridHoveredElement := None, gridTargetSpeed := 21\<rparr>)
                     else st))
      | ToggleViewMode \<Rightarrow> toggleViewMode st
      | Collapse \<Rightarrow> Some (collapseCard st)
      | Resize w h \<Rightarrow> Some (resize st w h)
      | TimerRuns n \<Rightarrow>
          (if n < length (pending st)
           then run_timer (st\<lparr>pending := take n (pending st) @ drop (Suc n) (pending st)\<rparr>)
                  (snd (pending st ! n))
           else Some st)
      | AnimationFrame t \<Rightarrow> animate st t)"

fun run :: "cardStack \<Rightarrow> event list \<Rightarrow> cardStack option" where
  "run st [] = Some st"
| "run st (ev # evs) = do { st' \<leftarrow> step st ev; run st' evs }"

text \<open>The ranks of the cards, in the order of \<^verbatim>\<open>cards\<close>.\<close>

definition ranks :: "cardStack \<Rightarrow> int list" where
  "ranks st = map zIndex (cards st)"

text \<open>The ranks are the numbers 0 to \<open>N - 1\<close>, each once.\<close>

definition ranks_permutation :: "cardStack \<Rightarrow> bool" where
  "ranks_permutation st \<longleftrightarrow> mset (ranks st) = mset (map int [0..<length (cards st)])"

section \<open>Notions for the grid layout\<close>

text \<open>
  \<^verbatim>\<open>totalGridWidth\<close> of \<^verbatim>\<open>getGridPosition\<close>, computed as there: the width of five times
  the three columns of cells.
\<close>

definition totalGridWidth :: "cardStack \<Rightarrow> real option" where
  "totalGridWidth st =
     do {
       let cols = (3 :: nat);
       gridScale \<leftarrow> getAdaptiveGridScale st;
       let cardWidth = grid_cardWidth st gridScale;
       let gap = grid_gap st gridScale;
       Some ((real cols * 5) * (cardWidth + gap))
     }"


text \<open>
  The sizes of a controller are in order when the scale factor and the base card size
  are positive and the window's height is not negative. The constructor makes them so
  in any window, and \<^verbatim>\<open>updateSizes\<close> keeps them so.
\<close>

definition sized :: "cardStack \<Rightarrow> bool" where
  "sized st \<longleftrightarrow>
     0 < scaleFactor st \<and> 0 < baseCardWidth (options st) \<and>
     0 < baseCardHeight (options st) \<and> 0 \<le> innerHeight st"

text \<open>The remainder of the floored division: the representative in \<open>[0, w)\<close>.\<close>

definition floor_rem :: "real \<Rightarrow> real \<Rightarrow> real" where
  "floor_rem a w = a - w * of_int \<lfloor>a / w\<rfloor>"

section \<open>Controllers in order\<close>

text \<open>
  What the geometry of a controller is computed from: its options, its scale factor and
  the height of the window.
\<close>

definition geometry :: "cardStack \<Rightarrow> options \<times> real \<times> real" where
  "geometry st = (options st, scaleFactor st, innerHeight st)"

text \<open>
  A controller is in order when its sizes are and both base radius bands have their
  minimum below their maximum.
\<close>

definition in_order :: "cardStack \<Rightarrow> bool" where
  "in_order st \<longleftrightarrow>
     sized st \<and>
     fst (baseScaleRadius (options st)) < snd (baseScaleRadius (options st)) \<and>
     fst (baseSiblingRadius (options st)) < snd (baseSiblingRadius (options st))"

text \<open>A window has no negative width or height.\<close>

fun plausible :: "event \<Rightarrow> bool" where
  "plausible (Resize w h) = (0 \<le> w \<and> 0 \<le> h)"
| "plausible ev = True"

section \<open>A pointer gesture\<close>

text \<open>
  A gesture on the card \<open>k\<close>: a \<^verbatim>\<open>pointerdown\<close> at \<open>down\<close>, a \<^verbatim>\<open>pointermove\<close> at each
  position of \<open>moves\<close> in turn, and a \<^verbatim>\<open>pointerup\<close>.
\<close>

fun pointer_moves :: "cardStack \<Rightarrow> nat \<Rightarrow> (real \<times> real) list \<Rightarrow> cardStack" where
  "pointer_moves st k [] = st"
| "pointer_moves st k (p # ps) = pointer_moves (onPointerMove st k (fst p) (snd p)) k ps"

definition gesture :: "cardStack \<Rightarrow> nat \<Rightarrow> real \<times> real \<Rightarrow> (real \<times> real) list \<Rightarrow> cardStack" where
  "gesture st k down moves =
     onPointerUp (pointer_moves (onPointerDown st k (fst down) (snd down)) k moves) k"

section \<open>A host page\<close>

text \<open>
  A host page that passes an info panel and no other option, in a window of \<open>w\<close> by
  \<open>h\<close> pixels filled by the container.
\<close>

definition example_host :: hostOptions where
  "example_host =
     \<lparr> host_maxCards = None, host_spawnInterval = None,
       host_infoDisplay = Some \<lparr> titleEl = True, descriptionEl = True, innerEl = True \<rparr>,
       host_baseScaleRadius = None, host_baseSiblingRadius = None \<rparr>"

definition example_window :: "real \<Rightarrow> real \<Rightarrow> window" where
  "example_window w h =
     \<lparr> performance_now = 0, window_innerWidth = w, window_innerHeight = h,
       container_rect = (0, 0, w, h), has_detailPage = True, has_dragTip = True,
       stored_hasVisited = False \<rparr>"

text \<open>
  The controller of that page in a window of 1280 by 800 pixels (scale factor 1), with
  one spawned card for each entry of \<open>rs\<close>, the card at position \<open>i\<close> at rank
  \<open>rs ! i\<close>, and no timer pending.
\<close>

definition stack_of_ranks :: "int list \<Rightarrow> cardStack" where
  "stack_of_ranks rs =
     (CardStack_constructor example_host (example_window 1280 800))
       \<lparr>cards := map (\<lambda>i. (new_Card i)\<lparr>zIndex := rs ! i\<rparr>) [0..<length rs],
        pending := []\<rparr>"

section \<open>The z-order operations, as the specification words them\<close>

text \<open>
  \<^verbatim>\<open>bringToFront\<close>, for a card of rank \<open>r\<close>: a rank above \<open>r\<close> goes down by one.
\<close>

definition front_shift :: "int \<Rightarrow> int \<Rightarrow> int" where
  "front_shift r z = (if z > r then z - 1 else z)"

text \<open>
  \<^verbatim>\<open>updateCardOrder\<close>, for a card that moves from rank \<open>oldIndex\<close> to \<open>newIndex\<close>: on
  the way down the ranks in \<open>[newIndex, oldIndex)\<close> go up by one, on the way up the ranks
  in \<open>(oldIndex, newIndex]\<close> go down by one.
\<close>

definition order_shift :: "int \<Rightarrow> int \<Rightarrow> int \<Rightarrow> int" where
  "order_shift newIndex oldIndex z =
     (if newIndex < oldIndex
      then (if newIndex \<le> z \<and> z < oldIndex then z + 1 else z)
      else (if oldIndex < z \<and> z \<le> newIndex then z - 1 else z))"

text \<open>
  Three cards at the ranks 1, 2 and 0, in grid mode, with the pointer over the first.
\<close>

definition hovered_grid_stack :: cardStack where
  "hovered_grid_stack =
     (stack_of_ranks [1, 2, 0])\<lparr>viewMode := Grid, gridHoveredElement := Some (CardElement 0)\<rparr>"



section \<open>Interpolation and remapping\<close>

lemmas rd_eval = rd_def binade_def binade_up.simps binade_down.simps rne_def Let_def
  power2_eq_square
















section \<open>The viewport scale factor\<close>

lemma clamp_bounds: "mn \<le> mx \<Longrightarrow> mn \<le> clamp v mn mx \<and> clamp v mn mx \<le> mx"
  by (simp add: clamp_def)

lemma scaleFactor_updateSizes:
  "scaleFactor (updateSizes st) = clamp (min (innerWidth st) (innerHeight st) / 800) 0.4 1.5"
  by (simp add: updateSizes_def Let_def)

lemma options_updateSizes: "options (updateSizes st) = options st"
  by (simp add: updateSizes_def Let_def)

lemma cards_updateSizes: "cards (updateSizes st) = cards st"
  by (simp add: updateSizes_def Let_def)

lemma updateSizes_range:
  "0.4 \<le> scaleFactor (updateSizes st) \<and> scaleFactor (updateSizes st) \<le> 1.5"
  unfolding scaleFactor_updateSizes by (rule clamp_bounds) simp

text \<open>
  Claim C10. After \<^verbatim>\<open>updateSizes\<close> the scale factor lies between 0.4 and 1.5. Hence,
  when a base band has its minimum below its maximum, so has the scaled band that
  \<^verbatim>\<open>getScaledRadius\<close> returns, and the remapping over that band has a non-zero divisor:
  the distance-to-scale remapping of \<^verbatim>\<open>updateDragging\<close> and the distance-to-rank
  remapping of \<^verbatim>\<open>updateZIndexFromDistance\<close> yield a number for every distance.
\<close>

theorem updateSizes_scale_bounds:
  "0.4 \<le> scaleFactor (updateSizes st) \<and> scaleFactor (updateSizes st) \<le> 1.5 \<and>
   (fst (baseScaleRadius (options st)) < snd (baseScaleRadius (options st)) \<longrightarrow>
      fst (getScaledRadius (updateSizes st) ''scale'')
        < snd (getScaledRadius (updateSizes st) ''scale'') \<and>
      (\<exists>r. remap (clamp dst (fst (getScaledRadius (updateSizes st) ''scale''))
                           (snd (getScaledRadius (updateSizes st) ''scale'')))
                (fst (getScaledRadius (updateSizes st) ''scale''))
                (snd (getScaledRadius (updateSizes st) ''scale'')) 1 onDragScaleSize = Some r)) \<and>
   (fst (baseSiblingRadius (options st)) < snd (baseSiblingRadius (options st)) \<longrightarrow>
      fst (getScaledRadius (updateSizes st) ''sibling'')
        < snd (getScaledRadius (updateSizes st) ''sibling'') \<and>
      (\<exists>z. newIndex_from_distance (updateSizes st) dst = Some z))"
proof -
  have pos: "0 < scaleFactor (updateSizes st)"
    using updateSizes_range [of st] by simp
  have sc: "fst (getScaledRadius (updateSizes st) ''scale'')
        < snd (getScaledRadius (updateSizes st) ''scale'')"
    if "fst (baseScaleRadius (options st)) < snd (baseScaleRadius (options st))"
    using that pos by (simp add: getScaledRadius_def Let_def options_updateSizes)
  have sb: "fst (getScaledRadius (updateSizes st) ''sibling'')
        < snd (getScaledRadius (updateSizes st) ''sibling'')"
    if "fst (baseSiblingRadius (options st)) < snd (baseSiblingRadius (options st))"
    using that pos by (simp add: getScaledRadius_def Let_def options_updateSizes)
  have ni: "\<exists>z. newIndex_from_distance (updateSizes st) dst = Some z"
    if "fst (baseSiblingRadius (options st)) < snd (baseSiblingRadius (options st))"
    using sb [OF that] by (simp add: newIndex_from_distance_def Let_def remap_def)
  show ?thesis
    using updateSizes_range [of st] sc sb ni by (auto simp add: remap_def)
qed

theorem updateSizes_scale_bounds_witness:
  "fst (baseScaleRadius (options (CardStack_constructor example_host (example_window 1024 768))))
     < snd (baseScaleRadius (options (CardStack_constructor example_host (example_window 1024 768)))) \<and>
   fst (baseSiblingRadius (options (CardStack_constructor example_host (example_window 1024 768))))
     < snd (baseSiblingRadius (options (CardStack_constructor example_host (example_window 1024 768)))) \<and>
   scaleFactor (updateSizes (CardStack_constructor example_host (example_window 1024 768))) = 0.96 \<and>
   getScaledRadius (updateSizes (CardStack_constructor example_host (example_window 1024 768))) ''scale''
     = (96, 288) \<and>
   (\<exists>z. newIndex_from_distance
          (updateSizes (CardStack_constructor example_host (example_window 1024 768))) 400 = Some z)"
  using updateSizes_scale_bounds [of "CardStack_constructor example_host (example_window 1024 768)" 400]
  by (simp add: CardStack_constructor_def example_host_def example_window_def
      spawnAllCards_def updateSizes_def Let_def clamp_def getScaledRadius_def)

section \<open>The z-order operations\<close>

lemma cards_updateInfoDisplay: "cards (updateInfoDisplay st k b) = cards st"
  by (simp add: updateInfoDisplay_def Let_def split: option.splits)

lemma length_bringToFront_loop: "length (bringToFront_loop k z i cs) = length cs"
  by (induction cs arbitrary: i) simp_all

lemma nth_bringToFront_loop:
  "j < length cs \<Longrightarrow>
   bringToFront_loop k z i cs ! j =
     (if i + j \<noteq> k \<and> zIndex (cs ! j) > z then (cs ! j)\<lparr>zIndex := zIndex (cs ! j) - 1\<rparr>
      else cs ! j)"
proof (induction cs arbitrary: i j)
  case Nil
  then show ?case by simp
next
  case (Cons c cs)
  show ?case
  proof (cases j)
    case 0
    then show ?thesis by simp
  next
    case (Suc j')
    with Cons.prems have "j' < length cs" by simp
    from Cons.IH [OF this, of "Suc i"] Suc show ?thesis by simp
  qed
qed

lemma length_updateCardOrder_loop: "length (updateCardOrder_loop k n o' i cs) = length cs"
  by (induction cs arbitrary: i) simp_all

lemma nth_updateCardOrder_loop:
  "j < length cs \<Longrightarrow>
   updateCardOrder_loop k n o' i cs ! j =
     (if i + j = k then cs ! j
      else (cs ! j)\<lparr>zIndex := order_shift n o' (zIndex (cs ! j))\<rparr>)"
proof (induction cs arbitrary: i j)
  case Nil
  then show ?case by simp
next
  case (Cons c cs)
  show ?case
  proof (cases j)
    case 0
    then show ?thesis by (simp add: order_shift_def)
  next
    case (Suc j')
    with Cons.prems have "j' < length cs" by simp
    from Cons.IH [OF this, of "Suc i"] Suc show ?thesis by simp
  qed
qed

lemma length_cards_bringToFront: "length (cards (bringToFront st k)) = length (cards st)"
  by (simp add: bringToFront_def Let_def cards_updateInfoDisplay setZIndex_def
      length_bringToFront_loop)

lemma length_cards_updateCardOrder:
  "length (cards (updateCardOrder st k n)) = length (cards st)"
  by (simp add: updateCardOrder_def Let_def cards_updateInfoDisplay setZIndex_def
      length_updateCardOrder_loop split: option.splits)

lemma zIndex_bringToFront:
  assumes "k < length (cards st)" "j < length (cards st)"
  shows "zIndex (cards (bringToFront st k) ! j) =
     (if j = k then int (length (cards st)) - 1
      else front_shift (zIndex (cards st ! k)) (zIndex (cards st ! j)))"
  using assms
  by (simp add: bringToFront_def Let_def cards_updateInfoDisplay setZIndex_def
      length_bringToFront_loop nth_bringToFront_loop nth_list_update front_shift_def)

lemma zIndex_updateCardOrder:
  assumes "k < length (cards st)" "j < length (cards st)" "n \<noteq> zIndex (cards st ! k)"
  shows "zIndex (cards (updateCardOrder st k n) ! j) =
     (if j = k then n else order_shift n (zIndex (cards st ! k)) (zIndex (cards st ! j)))"
  using assms
  by (simp add: updateCardOrder_def Let_def cards_updateInfoDisplay setZIndex_def
      length_updateCardOrder_loop nth_updateCardOrder_loop nth_list_update
      split: option.splits)

lemma updateCardOrder_same: "updateCardOrder st k (zIndex (cards st ! k)) = st"
  by (simp add: updateCardOrder_def)

lemma ranks_bringToFront:
  assumes "k < length (cards st)"
  shows "ranks (bringToFront st k) =
     map (\<lambda>j. if j = k then int (length (cards st)) - 1
               else front_shift (ranks st ! k) (ranks st ! j)) [0..<length (cards st)]"
proof (rule nth_equalityI)
  show "length (ranks (bringToFront st k)) = length (map (\<lambda>j. if j = k then int (length (cards st)) - 1
               else front_shift (ranks st ! k) (ranks st ! j)) [0..<length (cards st)])"
    by (simp add: ranks_def length_cards_bringToFront)
next
  fix j assume "j < length (ranks (bringToFront st k))"
  then have j: "j < length (cards st)"
    by (simp add: ranks_def length_cards_bringToFront)
  then show "ranks (bringToFront st k) ! j = map (\<lambda>j. if j = k then int (length (cards st)) - 1
               else front_shift (ranks st ! k) (ranks st ! j)) [0..<length (cards st)] ! j"
    using assms by (simp add: ranks_def length_cards_bringToFront zIndex_bringToFront)
qed

lemma ranks_updateCardOrder:
  assumes "k < length (cards st)" "n \<noteq> ranks st ! k"
  shows "ranks (updateCardOrder st k n) =
     map (\<lambda>j. if j = k then n
               else order_shift n (ranks st ! k) (ranks st ! j)) [0..<length (cards st)]"
proof (rule nth_equalityI)
  show "length (ranks (updateCardOrder st k n)) = length (map (\<lambda>j. if j = k then n
               else order_shift n (ranks st ! k) (ranks st ! j)) [0..<length (cards st)])"
    by (simp add: ranks_def length_cards_updateCardOrder)
next
  fix j assume "j < length (ranks (updateCardOrder st k n))"
  then have j: "j < length (cards st)"
    by (simp add: ranks_def length_cards_updateCardOrder)
  from assms have n: "n \<noteq> zIndex (cards st ! k)" by (simp add: ranks_def)
  from j show "ranks (updateCardOrder st k n) ! j = map (\<lambda>j. if j = k then n
               else order_shift n (ranks st ! k) (ranks st ! j)) [0..<length (cards st)] ! j"
    using assms(1) n by (simp add: ranks_def length_cards_updateCardOrder zIndex_updateCardOrder)
qed

lemma mset_upto_int: "mset (map int [0..<n]) = mset_set {0..<int n}"
proof -
  have "mset (map int [0..<n]) = image_mset int (mset_set {0..<n})" by simp
  also have "\<dots> = mset_set (int ` {0..<n})"
    by (rule image_mset_mset_set) simp
  also have "int ` {0..<n} = {0..<int n}"
    using image_int_atLeastLessThan [of 0 n] by simp
  finally show ?thesis .
qed

lemma ranks_permutation_iff:
  "ranks_permutation st \<longleftrightarrow> mset (ranks st) = mset_set {0..<int (length (cards st))}"
  by (simp only: ranks_permutation_def mset_upto_int)

lemma ranks_permutation_distinct: "ranks_permutation st \<Longrightarrow> distinct (ranks st)"
proof -
  assume "ranks_permutation st"
  then have "mset (ranks st) = mset (map int [0..<length (cards st)])"
    by (simp only: ranks_permutation_def)
  then have "distinct (ranks st) = distinct (map int [0..<length (cards st)])"
    by (rule mset_eq_imp_distinct_iff)
  then show ?thesis by (simp add: distinct_map)
qed

lemma ranks_permutation_set:
  "ranks_permutation st \<Longrightarrow> set (ranks st) = {0..<int (length (cards st))}"
proof -
  assume "ranks_permutation st"
  then have "mset (ranks st) = mset_set {0..<int (length (cards st))}"
    by (simp only: ranks_permutation_iff)
  then have "set_mset (mset (ranks st)) = set_mset (mset_set {0..<int (length (cards st))})"
    by simp
  then show ?thesis by simp
qed

lemma length_ranks: "length (ranks st) = length (cards st)"
  by (simp add: ranks_def)

lemma map_by_position_eq_map_by_rank:
  assumes "distinct rs" "k < length rs"
  shows "map (\<lambda>j. if j = k then a else g (rs ! j)) [0..<length rs]
       = map (\<lambda>z. if z = rs ! k then a else g z) rs"
proof (rule nth_equalityI)
  show "length (map (\<lambda>j. if j = k then a else g (rs ! j)) [0..<length rs])
      = length (map (\<lambda>z. if z = rs ! k then a else g z) rs)" by simp
next
  fix j assume "j < length (map (\<lambda>j. if j = k then a else g (rs ! j)) [0..<length rs])"
  then have j: "j < length rs" by simp
  with assms have "rs ! j = rs ! k \<longleftrightarrow> j = k"
    by (simp add: nth_eq_iff_index_eq)
  with j show "map (\<lambda>j. if j = k then a else g (rs ! j)) [0..<length rs] ! j
      = map (\<lambda>z. if z = rs ! k then a else g z) rs ! j" by simp
qed

lemma image_mset_permutes:
  assumes "finite A" "inj_on f A" "f ` A \<subseteq> A"
  shows "image_mset f (mset_set A) = mset_set A"
proof -
  have "f ` A = A"
    using assms by (simp add: endo_inj_surj)
  moreover have "image_mset f (mset_set A) = mset_set (f ` A)"
    using assms(2) by (rule image_mset_mset_set)
  ultimately show ?thesis by simp
qed

lemma front_rank_permutes:
  assumes "0 \<le> r" "r < n"
  shows "inj_on (\<lambda>z. if z = r then n - 1 else front_shift r z) {0..<n}"
    and "(\<lambda>z. if z = r then n - 1 else front_shift r z) ` {0..<n} \<subseteq> {0..<n}"
  using assms by (auto simp add: inj_on_def front_shift_def split: if_splits)

lemma order_rank_permutes:
  assumes "0 \<le> r" "r < n" "0 \<le> m" "m < n"
  shows "inj_on (\<lambda>z. if z = r then m else order_shift m r z) {0..<n}"
    and "(\<lambda>z. if z = r then m else order_shift m r z) ` {0..<n} \<subseteq> {0..<n}"
  using assms by (auto simp add: inj_on_def order_shift_def split: if_splits)

lemma ranks_permutation_nth:
  assumes "ranks_permutation st" "k < length (cards st)"
  shows "0 \<le> ranks st ! k \<and> ranks st ! k < int (length (cards st))"
proof -
  have "ranks st ! k \<in> set (ranks st)"
    using assms(2) by (simp add: length_ranks)
  then show ?thesis
    using ranks_permutation_set [OF assms(1)] by simp
qed

lemma ranks_permutation_bringToFront:
  assumes "ranks_permutation st" "k < length (cards st)"
  shows "ranks_permutation (bringToFront st k)"
proof -
  let ?n = "int (length (cards st))"
  let ?f = "\<lambda>z. if z = ranks st ! k then ?n - 1 else front_shift (ranks st ! k) z"
  have d: "distinct (ranks st)" by (rule ranks_permutation_distinct [OF assms(1)])
  have k: "k < length (ranks st)" using assms(2) by (simp add: length_ranks)
  have "ranks (bringToFront st k) =
     map (\<lambda>j. if j = k then ?n - 1 else front_shift (ranks st ! k) (ranks st ! j))
       [0..<length (ranks st)]"
    using ranks_bringToFront [OF assms(2)] by (simp add: length_ranks)
  also have "\<dots> = map ?f (ranks st)"
    by (rule map_by_position_eq_map_by_rank [OF d k])
  finally have "mset (ranks (bringToFront st k)) = image_mset ?f (mset (ranks st))"
    by simp
  also have "\<dots> = image_mset ?f (mset_set {0..<?n})"
    using assms(1) by (simp only: ranks_permutation_iff)
  also have "\<dots> = mset_set {0..<?n}"
    using front_rank_permutes [of "ranks st ! k" ?n] ranks_permutation_nth [OF assms]
    by (intro image_mset_permutes) simp_all
  finally show ?thesis
    by (simp only: ranks_permutation_iff length_cards_bringToFront)
qed

lemma ranks_permutation_updateCardOrder:
  assumes "ranks_permutation st" "k < length (cards st)"
    and "0 \<le> m" "m < int (length (cards st))"
  shows "ranks_permutation (updateCardOrder st k m)"
proof (cases "m = ranks st ! k")
  case True
  then have "updateCardOrder st k m = st"
    using assms(2) updateCardOrder_same [of st k] by (simp add: ranks_def)
  with assms(1) show ?thesis by simp
next
  case False
  let ?n = "int (length (cards st))"
  let ?f = "\<lambda>z. if z = ranks st ! k then m else order_shift m (ranks st ! k) z"
  have d: "distinct (ranks st)" by (rule ranks_permutation_distinct [OF assms(1)])
  have k: "k < length (ranks st)" using assms(2) by (simp add: length_ranks)
  have "ranks (updateCardOrder st k m) =
     map (\<lambda>j. if j = k then m else order_shift m (ranks st ! k) (ranks st ! j))
       [0..<length (ranks st)]"
    using ranks_updateCardOrder [OF assms(2) False] by (simp add: length_ranks)
  also have "\<dots> = map ?f (ranks st)"
    by (rule map_by_position_eq_map_by_rank [OF d k])
  finally have "mset (ranks (updateCardOrder st k m)) = image_mset ?f (mset (ranks st))"
    by simp
  also have "\<dots> = image_mset ?f (mset_set {0..<?n})"
    using assms(1) by (simp only: ranks_permutation_iff)
  also have "\<dots> = mset_set {0..<?n}"
    using order_rank_permutes [of "ranks st ! k" ?n m] ranks_permutation_nth [OF assms(1,2)]
      assms(3,4)
    by (intro image_mset_permutes) simp_all
  finally show ?thesis
    by (simp only: ranks_permutation_iff length_cards_updateCardOrder)
qed

lemma cards_stack_of_ranks:
  "cards (stack_of_ranks rs) = map (\<lambda>i. (new_Card i)\<lparr>zIndex := rs ! i\<rparr>) [0..<length rs]"
  by (simp add: stack_of_ranks_def)

lemma ranks_stack_of_ranks: "ranks (stack_of_ranks rs) = rs"
  by (rule nth_equalityI) (simp_all add: ranks_def cards_stack_of_ranks)

text \<open>
  Claim C2. For every card collection whose ranks are a permutation of \<open>0..N-1\<close> and
  every card \<open>k\<close> of it: \<^verbatim>\<open>bringToFront\<close> takes one off the rank of every other card
  whose rank exceeds the old rank of \<open>k\<close>, leaves the other ranks, and sets the rank of
  \<open>k\<close> to \<open>N - 1\<close>; \<^verbatim>\<open>updateCardOrder\<close> with the card's own rank changes nothing, and
  with another rank \<open>newIndex\<close> it adds one to every other card's rank in
  \<open>[newIndex, oldIndex)\<close> on the way down, takes one off every other card's rank in
  \<open>(oldIndex, newIndex]\<close> on the way up, and sets the rank of \<open>k\<close> to \<open>newIndex\<close>.
\<close>

theorem zorder_operations_as_specified:
  assumes "ranks_permutation st" and "k < length (cards st)"
  shows "ranks (bringToFront st k) =
           map (\<lambda>j. if j = k then int (length (cards st)) - 1
                     else front_shift (ranks st ! k) (ranks st ! j)) [0..<length (cards st)] \<and>
         updateCardOrder st k (ranks st ! k) = st \<and>
         (newIndex \<noteq> ranks st ! k \<longrightarrow>
            ranks (updateCardOrder st k newIndex) =
              map (\<lambda>j. if j = k then newIndex
                        else order_shift newIndex (ranks st ! k) (ranks st ! j))
                [0..<length (cards st)])"
  using assms(2) ranks_bringToFront [OF assms(2)] ranks_updateCardOrder [OF assms(2)]
    updateCardOrder_same [of st k]
  by (simp add: ranks_def)

theorem zorder_operations_as_specified_witness:
  "ranks_permutation (stack_of_ranks [1, 2, 0]) \<and>
   (0::nat) < length (cards (stack_of_ranks [1, 2, 0])) \<and>
   ranks (bringToFront (stack_of_ranks [1, 2, 0]) 0) = [2, 1, 0] \<and>
   updateCardOrder (stack_of_ranks [1, 2, 0]) 0 1 = stack_of_ranks [1, 2, 0] \<and>
   (0::int) \<noteq> [1, 2, 0] ! 0 \<and>
   ranks (updateCardOrder (stack_of_ranks [1, 2, 0]) 0 0) = [0, 2, 1]"
proof -
  have p: "ranks_permutation (stack_of_ranks [1, 2, 0])"
    by (simp add: ranks_permutation_def ranks_stack_of_ranks cards_stack_of_ranks upt_rec)
  have k: "(0::nat) < length (cards (stack_of_ranks [1, 2, 0]))"
    by (simp add: cards_stack_of_ranks)
  show ?thesis
    using p k zorder_operations_as_specified [OF p k, of 0]
    by (simp add: ranks_stack_of_ranks cards_stack_of_ranks upt_rec front_shift_def
        order_shift_def)
qed

lemma Math_round_range:
  assumes "0 \<le> r" "r \<le> of_int M"
  shows "0 \<le> Math_round r \<and> Math_round r \<le> M"
proof -
  have "0 \<le> \<lfloor>r + 1 / 2\<rfloor>" using assms(1) by simp
  moreover have "\<lfloor>r + 1 / 2\<rfloor> \<le> M"
  proof -
    have "r + 1 / 2 < of_int (M + 1)" using assms(2) by simp
    then have "\<lfloor>r + 1 / 2\<rfloor> < M + 1" by (simp only: floor_less_iff)
    then show ?thesis by simp
  qed
  ultimately show ?thesis by (simp add: Math_round_def)
qed

lemma remap_clamped_range:
  assumes "remap (clamp d s0 s1) s0 s1 M 0 = Some r" "0 \<le> M"
  shows "0 \<le> r \<and> r \<le> M"
proof -
  from assms(1) have ne: "s1 - s0 \<noteq> 0"
    and r: "r = M + (0 - M) * ((clamp d s0 s1 - s0) / (s1 - s0))"
    by (auto simp add: remap_def split: if_splits)
  define t where "t = (clamp d s0 s1 - s0) / (s1 - s0)"
  have t: "0 \<le> t \<and> t \<le> 1"
  proof (cases "s0 < s1")
    case True
    then have "s0 \<le> clamp d s0 s1 \<and> clamp d s0 s1 \<le> s1"
      by (simp add: clamp_def)
    with True show ?thesis by (simp add: t_def)
  next
    case False
    with ne have "s1 < s0" by simp
    then have "clamp d s0 s1 = s1" by (simp add: clamp_def)
    with ne show ?thesis by (simp add: t_def)
  qed
  have "r = M + (0 - M) * t" using r by (simp only: t_def)
  then have "r = M * (1 - t)" by (simp add: algebra_simps)
  moreover have "0 \<le> M * (1 - t)" using t assms(2) by simp
  moreover have "M * (1 - t) \<le> M * 1"
    using t assms(2) by (intro mult_left_mono) simp_all
  ultimately show ?thesis by simp
qed

lemma newIndex_from_distance_range:
  assumes "newIndex_from_distance st d = Some m" "cards st \<noteq> []"
  shows "0 \<le> m \<and> m < int (length (cards st))"
proof -
  let ?M = "int (length (cards st)) - 1"
  let ?s = "getScaledRadius st ''sibling''"
  from assms(1) obtain r where
    r: "remap (clamp d (fst ?s) (snd ?s)) (fst ?s) (snd ?s) (real_of_int ?M) 0 = Some r"
    and m: "m = Math_round r"
    by (auto simp add: newIndex_from_distance_def Let_def split: bind_splits)
  have M: "0 \<le> real_of_int ?M" using assms(2) by (cases "cards st") simp_all
  from remap_clamped_range [OF r M] have "0 \<le> r \<and> r \<le> of_int ?M" .
  then have "0 \<le> Math_round r \<and> Math_round r \<le> ?M"
    by (intro Math_round_range) simp_all
  with m show ?thesis by simp
qed

lemma ranks_permutation_updateZIndexFromDistance:
  assumes "ranks_permutation st" "k < length (cards st)"
    and "updateZIndexFromDistance st k d = Some st'"
  shows "ranks_permutation st'"
proof -
  from assms(3) obtain m where m: "newIndex_from_distance st d = Some m"
    and st': "st' = (if m \<noteq> zIndex (cards st ! k) then updateCardOrder st k m else st)"
    by (auto simp add: updateZIndexFromDistance_def split: bind_splits)
  from assms(2) have "cards st \<noteq> []" by auto
  from newIndex_from_distance_range [OF m this]
  have "ranks_permutation (updateCardOrder st k m)"
    by (intro ranks_permutation_updateCardOrder assms) simp_all
  with st' assms(1) show ?thesis by simp
qed

section \<open>The permutation of ranks\<close>

lemmas run_defs = CardStack_constructor_def example_host_def example_window_def
  spawnAllCards_def updateSizes_def Let_def clamp_def step_def run_timer_def spawnCard_def
  new_Card_def updateInfoDisplay_def toggleViewMode_def createGridClones_def
  hideGridHoverInfo_def onMouseEnter_def showGridHoverInfo_def animate_def
  updateGridSliding_def updateGridClones_def update_def updateIdle_def upd_card_def
  getGridPosition_def getAdaptiveGridScale_def grid_cardWidth_def grid_gap_def wrap_x_def
  js_rem_def js_trunc_def Math_ceil_def
  Math_floor_def rowOffset_or_0_def lerp_def moveSmoothing_def rotationSmoothing_def
  ranks_def upt_rec showInfoDisplay_def showFirstTimeTip_def

lemma updateIdle_grid_rank:
  assumes "updateIdle st k dt = Some st'" "viewMode st = Grid" "k < length (cards st)"
  shows "zIndex (cards st' ! k) =
           (if gridHoveredElement st = Some (CardElement k) then 100
            else int (index (cards st ! k)))"
  using assms
  by (auto simp add: updateIdle_def upd_card_def Let_def split: bind_splits option.splits)

text \<open>
  Claim C1 asks for the ranks of the cards to be a permutation of \<open>0..N-1\<close> in every
  state the controller can reach. It is not so: the default page spawns its eight cards,
  switches to the grid and has the pointer enter the first card; the next animation
  frame gives that card the rank 100.
\<close>

theorem ranks_permutation_counterexample:
  "map_option ranks
     (run (CardStack_constructor example_host (example_window 1280 800))
        [TimerRuns 0, TimerRuns 0, TimerRuns 0, TimerRuns 0,
         TimerRuns 0, TimerRuns 0, TimerRuns 0, TimerRuns 0,
         ToggleViewMode, MouseEnter 0, AnimationFrame 16])
     = Some [100, 1, 2, 3, 4, 5, 6, 7] \<and>
   map_option ranks_permutation
     (run (CardStack_constructor example_host (example_window 1280 800))
        [TimerRuns 0, TimerRuns 0, TimerRuns 0, TimerRuns 0,
         TimerRuns 0, TimerRuns 0, TimerRuns 0, TimerRuns 0,
         ToggleViewMode, MouseEnter 0, AnimationFrame 16])
     = Some False"
proof -
  let ?r = "run (CardStack_constructor example_host (example_window 1280 800))
        [TimerRuns 0, TimerRuns 0, TimerRuns 0, TimerRuns 0,
         TimerRuns 0, TimerRuns 0, TimerRuns 0, TimerRuns 0,
         ToggleViewMode, MouseEnter 0, AnimationFrame 16]"
  have r: "map_option ranks ?r = Some [100, 1, 2, 3, 4, 5, 6, 7]"
    by (simp add: run_defs)
  then obtain st where st: "?r = Some st" and rs: "ranks st = [100, 1, 2, 3, 4, 5, 6, 7]"
    by auto
  have "\<not> ranks_permutation st"
  proof
    assume "ranks_permutation st"
    then have "set (ranks st) = {0..<int (length (cards st))}"
      by (rule ranks_permutation_set)
    moreover have "length (cards st) = 8"
      using rs length_ranks [of st] by simp
    moreover have "100 \<in> set (ranks st)"
      by (simp add: rs)
    ultimately have "(100::int) \<in> {0..<8}" by simp
    then show False by simp
  qed
  with r st show ?thesis by simp
qed

text \<open>
  Claim C1, amended. When the ranks are a permutation of \<open>0..N-1\<close>, they are one again
  after \<^verbatim>\<open>bringToFront\<close> of any card, after \<^verbatim>\<open>updateCardOrder\<close> of any card to a rank
  between 0 and \<open>N - 1\<close>, and after \<^verbatim>\<open>updateZIndexFromDistance\<close> of any card at any
  distance (the one caller of \<^verbatim>\<open>updateCardOrder\<close>). In grid mode the update of an idle
  card sets its rank to 100 when the pointer is over it and to its index otherwise.
\<close>

theorem ranks_permutation_preserved:
  assumes "ranks_permutation st" and "k < length (cards st)"
  shows "ranks_permutation (bringToFront st k) \<and>
         (0 \<le> m \<and> m < int (length (cards st)) \<longrightarrow>
            ranks_permutation (updateCardOrder st k m)) \<and>
         (updateZIndexFromDistance st k d = Some st' \<longrightarrow> ranks_permutation st') \<and>
         (viewMode st = Grid \<and> updateIdle st k dt = Some st'' \<longrightarrow>
            zIndex (cards st'' ! k) =
              (if gridHoveredElement st = Some (CardElement k) then 100
               else int (index (cards st ! k))))"
  using assms ranks_permutation_bringToFront [OF assms]
    ranks_permutation_updateCardOrder [OF assms]
    ranks_permutation_updateZIndexFromDistance [OF assms]
    updateIdle_grid_rank [of st k dt st'']
  by simp

lemma cards_hovered_grid_stack:
  "cards hovered_grid_stack = cards (stack_of_ranks [1, 2, 0])"
  by (simp add: hovered_grid_stack_def)

lemma ranks_hovered_grid_stack: "ranks hovered_grid_stack = [1, 2, 0]"
  by (simp add: ranks_def cards_hovered_grid_stack cards_stack_of_ranks upt_rec)

theorem ranks_permutation_preserved_witness:
  "ranks_permutation hovered_grid_stack \<and>
   (0::nat) < length (cards hovered_grid_stack) \<and>
   ((0::int) \<le> 0 \<and> 0 < int (length (cards hovered_grid_stack))) \<and>
   updateZIndexFromDistance hovered_grid_stack 0 400
     = Some (updateCardOrder hovered_grid_stack 0 0) \<and>
   viewMode hovered_grid_stack = Grid \<and>
   updateIdle hovered_grid_stack 0 0.016 = Some (the (updateIdle hovered_grid_stack 0 0.016)) \<and>
   ranks_permutation (bringToFront hovered_grid_stack 0) \<and>
   ranks_permutation (updateCardOrder hovered_grid_stack 0 0) \<and>
   zIndex (cards (the (updateIdle hovered_grid_stack 0 0.016)) ! 0) = 100"
proof -
  have p: "ranks_permutation hovered_grid_stack"
    by (simp add: ranks_permutation_def ranks_hovered_grid_stack cards_hovered_grid_stack
        cards_stack_of_ranks upt_rec)
  have k: "(0::nat) < length (cards hovered_grid_stack)"
    by (simp add: cards_hovered_grid_stack cards_stack_of_ranks)
  have m: "(0::int) \<le> 0 \<and> 0 < int (length (cards hovered_grid_stack))"
    by (simp add: cards_hovered_grid_stack cards_stack_of_ranks)
  have z: "updateZIndexFromDistance hovered_grid_stack 0 400
     = Some (updateCardOrder hovered_grid_stack 0 0)"
    by (simp add: updateZIndexFromDistance_def newIndex_from_distance_def
        getScaledRadius_def hovered_grid_stack_def stack_of_ranks_def run_defs remap_def
        Math_round_def)
  have g: "viewMode hovered_grid_stack = Grid"
    by (simp add: hovered_grid_stack_def)
  have "\<exists>s. updateIdle hovered_grid_stack 0 0.016 = Some s"
    by (simp add: hovered_grid_stack_def stack_of_ranks_def run_defs)
  then have i: "updateIdle hovered_grid_stack 0 0.016
      = Some (the (updateIdle hovered_grid_stack 0 0.016))"
    by auto
  have h: "gridHoveredElement hovered_grid_stack = Some (CardElement 0)"
    by (simp add: hovered_grid_stack_def)
  show ?thesis
    using p k m z g i h
      ranks_permutation_preserved [OF p k, of 0 400 "updateCardOrder hovered_grid_stack 0 0"
        "0.016" "the (updateIdle hovered_grid_stack 0 0.016)"]
    by simp
qed

section \<open>Click versus drag\<close>

lemma sqrt_eq: "0 \<le> r \<Longrightarrow> r * r = v \<Longrightarrow> sqrt v = r"
  using real_sqrt_abs2 [of r] by (simp add: power2_eq_square)

lemma sqrt_values: "sqrt 25 = 5" "sqrt 100 = 10" "sqrt 160000 = 400"
  by (rule sqrt_eq; simp)+

text \<open>
  Three moves from a pointer-down at \<open>(640, 400)\<close>: one of 5 pixels, one of 400 pixels,
  and one to \<open>(650, 400.00000001)\<close>, ten pixels to the right and the hundred-millionth
  of a pixel down, whose distance the script computes as 10.
\<close>

lemma distance_examples:
  "distance 640 400 643 404 = 5"
  "distance 640 400 1040 400 = 400"
  "distance 640 400 650 (3518437208971161 / 8796093022208) = 10"
  "distance 0 0 400 0 = 400"
  by (simp_all add: distance_def rd_eval sqrt_values)

text \<open>What the info panel update leaves alone.\<close>

lemma updateInfoDisplay_keeps:
  "viewMode (updateInfoDisplay st k b) = viewMode st"
  "expandedCard (updateInfoDisplay st k b) = expandedCard st"
  "detailPage (updateInfoDisplay st k b) = detailPage st"
  "previousViewMode (updateInfoDisplay st k b) = previousViewMode st"
  "dragTip (updateInfoDisplay st k b) = dragTip st"
  "containerRect (updateInfoDisplay st k b) = containerRect st"
  by (simp_all add: updateInfoDisplay_def Let_def split: option.splits)

lemma bringToFront_keeps:
  "viewMode (bringToFront st k) = viewMode st"
  "expandedCard (bringToFront st k) = expandedCard st"
  "detailPage (bringToFront st k) = detailPage st"
  "previousViewMode (bringToFront st k) = previousViewMode st"
  "dragTip (bringToFront st k) = dragTip st"
  "containerRect (bringToFront st k) = containerRect st"
  by (simp_all add: bringToFront_def Let_def updateInfoDisplay_keeps)

lemma bringToFront_card:
  assumes "k < length (cards st)" "j < length (cards st)"
  shows "cards (bringToFront st k) ! j =
           (cards st ! j)\<lparr>zIndex := (if j = k then int (length (cards st)) - 1
              else front_shift (zIndex (cards st ! k)) (zIndex (cards st ! j)))\<rparr>"
  using assms
  by (simp add: bringToFront_def Let_def cards_updateInfoDisplay setZIndex_def
      length_bringToFront_loop nth_bringToFront_loop nth_list_update front_shift_def)

lemma length_cards_upd_card: "length (cards (upd_card st k f)) = length (cards st)"
  by (simp add: upd_card_def)

lemma nth_cards_upd_card:
  "j < length (cards st) \<Longrightarrow>
   cards (upd_card st k f) ! j = (if j = k then f (cards st ! k) else cards st ! j)"
  by (simp add: upd_card_def nth_list_update)

lemma upd_card_keeps:
  "viewMode (upd_card st k f) = viewMode st"
  "expandedCard (upd_card st k f) = expandedCard st"
  "detailPage (upd_card st k f) = detailPage st"
  "previousViewMode (upd_card st k f) = previousViewMode st"
  "dragTip (upd_card st k f) = dragTip st"
  "containerRect (upd_card st k f) = containerRect st"
  by (simp_all add: upd_card_def)

text \<open>The state a gesture looks at.\<close>

lemma onPointerDown_facts:
  assumes "viewMode st \<noteq> Expanded" "k < length (cards st)"
  shows "viewMode (onPointerDown st k cx cy) = viewMode st"
    and "expandedCard (onPointerDown st k cx cy) = expandedCard st"
    and "detailPage (onPointerDown st k cx cy) = detailPage st"
    and "length (cards (onPointerDown st k cx cy)) = length (cards st)"
    and "\<not> hasDragged (cards (onPointerDown st k cx cy) ! k)"
    and "pointerDownPos (cards (onPointerDown st k cx cy) ! k) = (cx, cy)"
    and "viewMode st = Stack \<Longrightarrow> isDragging (cards (onPointerDown st k cx cy) ! k)"
proof -
  let ?st1 = "upd_card st k (\<lambda>c. c\<lparr>pointerDownPos := (cx, cy), hasDragged := False\<rparr>)"
  let ?st2 = "upd_card ?st1 k
                (\<lambda>c. c\<lparr>isDragging := True,
                       dragOffsetX := cx - fst (container_center ?st1) - xPos c,
                       dragOffsetY := cy - snd (container_center ?st1) - yPos c,
                       lastX := cx, lastY := cy\<rparr>)"
  have d: "onPointerDown st k cx cy = (if viewMode st = Grid then ?st1 else bringToFront ?st2 k)"
    using assms(1)
    by (simp add: onPointerDown_def Let_def upd_card_keeps split: prod.splits)
  have k2: "k < length (cards ?st2)" using assms(2) by (simp add: length_cards_upd_card)
  from bringToFront_card [OF k2 k2]
  obtain z where z: "cards (bringToFront ?st2 k) ! k = (cards ?st2 ! k)\<lparr>zIndex := z\<rparr>" ..
  show "viewMode (onPointerDown st k cx cy) = viewMode st"
    by (simp add: d bringToFront_keeps upd_card_keeps)
  show "expandedCard (onPointerDown st k cx cy) = expandedCard st"
    by (simp add: d bringToFront_keeps upd_card_keeps)
  show "detailPage (onPointerDown st k cx cy) = detailPage st"
    by (simp add: d bringToFront_keeps upd_card_keeps)
  show "length (cards (onPointerDown st k cx cy)) = length (cards st)"
    by (simp add: d length_cards_bringToFront length_cards_upd_card)
  show "\<not> hasDragged (cards (onPointerDown st k cx cy) ! k)"
    using assms(2) by (simp add: d z nth_cards_upd_card length_cards_upd_card)
  show "pointerDownPos (cards (onPointerDown st k cx cy) ! k) = (cx, cy)"
    using assms(2) by (simp add: d z nth_cards_upd_card length_cards_upd_card)
  show "isDragging (cards (onPointerDown st k cx cy) ! k)" if "viewMode st = Stack"
    using assms(2) that by (simp add: d z nth_cards_upd_card length_cards_upd_card)
qed

lemma onPointerMove_facts:
  assumes "k < length (cards st)"
  shows "viewMode (onPointerMove st k cx cy) = viewMode st"
    and "expandedCard (onPointerMove st k cx cy) = expandedCard st"
    and "detailPage (onPointerMove st k cx cy) = detailPage st"
    and "length (cards (onPointerMove st k cx cy)) = length (cards st)"
    and "pointerDownPos (cards (onPointerMove st k cx cy) ! k) = pointerDownPos (cards st ! k)"
    and "isDragging (cards (onPointerMove st k cx cy) ! k) = isDragging (cards st ! k)"
    and "hasDragged (cards (onPointerMove st k cx cy) ! k) \<longleftrightarrow>
           hasDragged (cards st ! k) \<or>
           distance (fst (pointerDownPos (cards st ! k))) (snd (pointerDownPos (cards st ! k)))
             cx cy > 10"
  using assms
  by (simp_all add: onPointerMove_def Let_def upd_card_def nth_list_update
      split: prod.splits)


lemma pointer_moves_facts:
  assumes "k < length (cards st)"
  shows "viewMode (pointer_moves st k ps) = viewMode st \<and>
         expandedCard (pointer_moves st k ps) = expandedCard st \<and>
         detailPage (pointer_moves st k ps) = detailPage st \<and>
         length (cards (pointer_moves st k ps)) = length (cards st) \<and>
         pointerDownPos (cards (pointer_moves st k ps) ! k) = pointerDownPos (cards st ! k) \<and>
         isDragging (cards (pointer_moves st k ps) ! k) = isDragging (cards st ! k) \<and>
         (hasDragged (cards (pointer_moves st k ps) ! k) \<longleftrightarrow>
            hasDragged (cards st ! k) \<or>
            (\<exists>p \<in> set ps. distance (fst (pointerDownPos (cards st ! k)))
                              (snd (pointerDownPos (cards st ! k))) (fst p) (snd p) > 10))"
  using assms
proof (induction ps arbitrary: st)
  case Nil
  then show ?case by simp
next
  case (Cons p ps)
  let ?st' = "onPointerMove st k (fst p) (snd p)"
  have k': "k < length (cards ?st')"
    using Cons.prems by (simp add: onPointerMove_facts)
  from Cons.IH [OF k'] onPointerMove_facts [OF Cons.prems, of "fst p" "snd p"]
  show ?case by auto
qed

lemma gesture_click_or_drag:
  assumes "viewMode st \<noteq> Expanded" and "k < length (cards st)"
  shows "((\<forall>p \<in> set moves. distance (fst down) (snd down) (fst p) (snd p) \<le> 10) \<longrightarrow>
            gesture st k down moves =
              expandCard (upd_card (pointer_moves (onPointerDown st k (fst down) (snd down)) k moves)
                            k (\<lambda>c. c\<lparr>isDragging := False\<rparr>)) k None \<and>
            viewMode (gesture st k down moves) = Expanded \<and>
            expandedCard (gesture st k down moves) = Some k \<and>
            targetX (cards (gesture st k down moves) ! k) =
              targetX (cards (pointer_moves (onPointerDown st k (fst down) (snd down)) k moves) ! k) \<and>
            targetY (cards (gesture st k down moves) ! k) =
              targetY (cards (pointer_moves (onPointerDown st k (fst down) (snd down)) k moves) ! k)) \<and>
         ((\<exists>p \<in> set moves. distance (fst down) (snd down) (fst p) (snd p) > 10) \<longrightarrow>
            viewMode (gesture st k down moves) = viewMode st \<and>
            expandedCard (gesture st k down moves) = expandedCard st \<and>
            detailPage (gesture st k down moves) = detailPage st \<and>
            (viewMode st = Stack \<longrightarrow>
               \<not> isDragging (cards (gesture st k down moves) ! k) \<and>
               targetX (cards (gesture st k down moves) ! k) = 0 \<and>
               targetY (cards (gesture st k down moves) ! k) = 0))"
proof -
  let ?d = "onPointerDown st k (fst down) (snd down)"
  let ?m = "pointer_moves ?d k moves"
  note dn = onPointerDown_facts [OF assms, of "fst down" "snd down"]
  have kd: "k < length (cards ?d)" using assms(2) by (simp add: dn)
  note mv = pointer_moves_facts [OF kd, of moves]
  have km: "k < length (cards ?m)" using kd by (simp add: mv)
  have vm: "viewMode ?m \<noteq> Expanded" using assms(1) by (simp add: mv dn)
  have hd: "hasDragged (cards ?m ! k) \<longleftrightarrow>
              (\<exists>p \<in> set moves. distance (fst down) (snd down) (fst p) (snd p) > 10)"
    using mv by (simp add: dn)
  have click: ?thesis if "\<not> hasDragged (cards ?m ! k)"
  proof -
    have g: "gesture st k down moves =
               expandCard (upd_card ?m k (\<lambda>c. c\<lparr>isDragging := False\<rparr>)) k None"
      using that vm by (simp add: gesture_def onPointerUp_def)
    have "viewMode (gesture st k down moves) = Expanded"
      and "expandedCard (gesture st k down moves) = Some k"
      and "cards (gesture st k down moves) = cards (upd_card ?m k (\<lambda>c. c\<lparr>isDragging := False\<rparr>))"
      by (simp_all add: g expandCard_def showDetailPage_def Let_def split: option.splits)
    with g that hd km show ?thesis
      by (simp add: nth_cards_upd_card)
  qed
  have drag: ?thesis if h: "hasDragged (cards ?m ! k)"
  proof -
    have g: "gesture st k down moves =
               (if \<not> isDragging (cards ?m ! k) then ?m
                else upd_card ?m k (\<lambda>c. c\<lparr>isDragging := False, targetX := 0, targetY := 0\<rparr>))"
      using h by (simp add: gesture_def onPointerUp_def)
    have "viewMode (gesture st k down moves) = viewMode st"
      and "expandedCard (gesture st k down moves) = expandedCard st"
      and "detailPage (gesture st k down moves) = detailPage st"
      using mv by (simp_all add: g upd_card_keeps dn)
    moreover have "\<not> isDragging (cards (gesture st k down moves) ! k) \<and>
               targetX (cards (gesture st k down moves) ! k) = 0 \<and>
               targetY (cards (gesture st k down moves) ! k) = 0" if "viewMode st = Stack"
    proof -
      have "isDragging (cards ?m ! k)" using mv dn(7) [OF that] by simp
      then show ?thesis using km by (simp add: g nth_cards_upd_card)
    qed
    ultimately show ?thesis using h hd by auto
  qed
  from click drag show ?thesis by blast
qed

text \<open>
  Claim C3 measures the moves in pixels: a move farther than 10 pixels from the
  pointer-down makes the gesture a drag. The script compares the distance that it
  computes, and each of its operations is rounded. For the pointer-down at
  \<open>(640, 400)\<close> and the one move to \<open>(650, 400.00000001)\<close>, which is farther than 10
  pixels away, the computed distance is 10, and the pointer-up expands the card.
\<close>

theorem click_versus_drag_counterexample:
  "viewMode (stack_of_ranks [0, 1, 2]) \<noteq> Expanded \<and>
   (2::nat) < length (cards (stack_of_ranks [0, 1, 2])) \<and>
   rd (40000000001 / 100000000) = 3518437208971161 / 8796093022208 \<and>
   10 < sqrt ((650 - 640)\<^sup>2 + (3518437208971161 / 8796093022208 - 400)\<^sup>2) \<and>
   distance 640 400 650 (3518437208971161 / 8796093022208) = 10 \<and>
   viewMode (gesture (stack_of_ranks [0, 1, 2]) 2 (640, 400)
               [(650, 3518437208971161 / 8796093022208)]) = Expanded \<and>
   expandedCard (gesture (stack_of_ranks [0, 1, 2]) 2 (640, 400)
                   [(650, 3518437208971161 / 8796093022208)]) = Some 2"
proof -
  have a: "viewMode (stack_of_ranks [0, 1, 2]) \<noteq> Expanded"
    by (simp add: stack_of_ranks_def CardStack_constructor_def spawnAllCards_def
        updateSizes_def Let_def)
  have b: "(2::nat) < length (cards (stack_of_ranks [0, 1, 2]))"
    by (simp add: cards_stack_of_ranks)
  have c: "rd (40000000001 / 100000000) = 3518437208971161 / 8796093022208"
    by (simp add: rd_eval)
  have "sqrt 100 < sqrt ((650 - 640)\<^sup>2 + (3518437208971161 / 8796093022208 - 400)\<^sup>2)"
    by (subst real_sqrt_less_iff) (simp add: power2_eq_square)
  then have d: "10 < sqrt ((650 - 640)\<^sup>2 + (3518437208971161 / 8796093022208 - 400)\<^sup>2)"
    by (simp only: sqrt_values)
  have e: "\<forall>p \<in> set [(650, 3518437208971161 / 8796093022208)].
             distance (fst (640, 400)) (snd (640, 400)) (fst p) (snd p) \<le> 10"
    by (simp add: distance_examples)
  from gesture_click_or_drag [OF a b, of "[(650, 3518437208971161 / 8796093022208)]" "(640, 400)"] e
  have f: "viewMode (gesture (stack_of_ranks [0, 1, 2]) 2 (640, 400)
               [(650, 3518437208971161 / 8796093022208)]) = Expanded \<and>
     expandedCard (gesture (stack_of_ranks [0, 1, 2]) 2 (640, 400)
                   [(650, 3518437208971161 / 8796093022208)]) = Some 2"
    by blast
  from a b c d f distance_examples(3) show ?thesis by blast
qed

text \<open>
  Claim C3, amended: the distance of a move is the one that the script computes, the
  rounded square root of the rounded sum of the rounded squares. Take a gesture on a
  card while the view mode is not \<^verbatim>\<open>expanded\<close>. If no move of it has a computed
  distance above 10 from the position of the pointer-down, the pointer-up is a call
  of \<^verbatim>\<open>expandCard\<close> for that card (so the controller is in expanded mode with that
  card expanded) and no drag release: the card's drag target is left as it was. If some
  move has a computed distance above 10, the pointer-up does not expand: view mode,
  expanded card and detail page are as before the gesture, and when the gesture began in
  stack mode, where the pointer-down starts a drag, the drag is over and the drag target
  is back at the origin.
\<close>

theorem click_versus_drag:
  assumes "viewMode st \<noteq> Expanded" and "k < length (cards st)"
  shows "((\<forall>p \<in> set moves. distance (fst down) (snd down) (fst p) (snd p) \<le> 10) \<longrightarrow>
            gesture st k down moves =
              expandCard (upd_card (pointer_moves (onPointerDown st k (fst down) (snd down)) k moves)
                            k (\<lambda>c. c\<lparr>isDragging := False\<rparr>)) k None \<and>
            viewMode (gesture st k down moves) = Expanded \<and>
            expandedCard (gesture st k down moves) = Some k \<and>
            targetX (cards (gesture st k down moves) ! k) =
              targetX (cards (pointer_moves (onPointerDown st k (fst down) (snd down)) k moves) ! k) \<and>
            targetY (cards (gesture st k down moves) ! k) =
              targetY (cards (pointer_moves (onPointerDown st k (fst down) (snd down)) k moves) ! k)) \<and>
         ((\<exists>p \<in> set moves. distance (fst down) (snd down) (fst p) (snd p) > 10) \<longrightarrow>
            viewMode (gesture st k down moves) = viewMode st \<and>
            expandedCard (gesture st k down moves) = expandedCard st \<and>
            detailPage (gesture st k down moves) = detailPage st \<and>
            (viewMode st = Stack \<longrightarrow>
               \<not> isDragging (cards (gesture st k down moves) ! k) \<and>
               targetX (cards (gesture st k down moves) ! k) = 0 \<and>
               targetY (cards (gesture st k down moves) ! k) = 0))"
  using assms by (rule gesture_click_or_drag)

theorem click_versus_drag_witness:
  "viewMode (stack_of_ranks [0, 1, 2]) \<noteq> Expanded \<and>
   (2::nat) < length (cards (stack_of_ranks [0, 1, 2])) \<and>
   distance 640 400 643 404 \<le> 10 \<and>
   viewMode (gesture (stack_of_ranks [0, 1, 2]) 2 (640, 400) [(643, 404)]) = Expanded \<and>
   expandedCard (gesture (stack_of_ranks [0, 1, 2]) 2 (640, 400) [(643, 404)]) = Some 2 \<and>
   distance 640 400 1040 400 > 10 \<and>
   viewMode (stack_of_ranks [0, 1, 2]) = Stack \<and>
   viewMode (gesture (stack_of_ranks [0, 1, 2]) 2 (640, 400) [(643, 404), (1040, 400)]) = Stack \<and>
   \<not> isDragging
       (cards (gesture (stack_of_ranks [0, 1, 2]) 2 (640, 400) [(643, 404), (1040, 400)]) ! 2) \<and>
   targetX
       (cards (gesture (stack_of_ranks [0, 1, 2]) 2 (640, 400) [(643, 404), (1040, 400)]) ! 2) = 0 \<and>
   targetY
       (cards (gesture (stack_of_ranks [0, 1, 2]) 2 (640, 400) [(643, 404), (1040, 400)]) ! 2) = 0"
proof -
  have v: "viewMode (stack_of_ranks [0, 1, 2]) = Stack"
    by (simp add: stack_of_ranks_def CardStack_constructor_def spawnAllCards_def
        updateSizes_def Let_def)
  then have a: "viewMode (stack_of_ranks [0, 1, 2]) \<noteq> Expanded" by simp
  have b: "(2::nat) < length (cards (stack_of_ranks [0, 1, 2]))"
    by (simp add: cards_stack_of_ranks)
  have c: "\<forall>p \<in> set [(643, 404)].
             distance (fst (640, 400)) (snd (640, 400)) (fst p) (snd p) \<le> 10"
    by (simp add: distance_examples)
  have c': "distance 640 400 643 404 \<le> 10"
    by (simp add: distance_examples)
  have d': "distance 640 400 1040 400 > 10"
    by (simp add: distance_examples)
  then have d: "\<exists>p \<in> set [(643, 404), (1040, 400)].
             distance (fst (640, 400)) (snd (640, 400)) (fst p) (snd p) > 10"
    by simp
  note t1 = click_versus_drag [OF a b, of "[(643, 404)]" "(640, 400)"]
  note t2 = click_versus_drag [OF a b, of "[(643, 404), (1040, 400)]" "(640, 400)"]
  from t1 c
  have e: "viewMode (gesture (stack_of_ranks [0, 1, 2]) 2 (640, 400) [(643, 404)]) = Expanded \<and>
     expandedCard (gesture (stack_of_ranks [0, 1, 2]) 2 (640, 400) [(643, 404)]) = Some 2"
    by blast
  from t2 d v
  have f: "viewMode (gesture (stack_of_ranks [0, 1, 2]) 2 (640, 400) [(643, 404), (1040, 400)])
       = Stack \<and>
     \<not> isDragging
       (cards (gesture (stack_of_ranks [0, 1, 2]) 2 (640, 400) [(643, 404), (1040, 400)]) ! 2) \<and>
     targetX
       (cards (gesture (stack_of_ranks [0, 1, 2]) 2 (640, 400) [(643, 404), (1040, 400)]) ! 2) = 0 \<and>
     targetY
       (cards (gesture (stack_of_ranks [0, 1, 2]) 2 (640, 400) [(643, 404), (1040, 400)]) ! 2) = 0"
    by metis
  from a b c' d' v e f show ?thesis by blast
qed

section \<open>Expand and collapse\<close>

lemma showDetailPage_fields:
  "viewMode (showDetailPage st k) = viewMode st"
  "previousViewMode (showDetailPage st k) = previousViewMode st"
  "expandedCard (showDetailPage st k) = expandedCard st"
  "cards (showDetailPage st k) = cards st"
  "pending (showDetailPage st k) = pending st"
  "options (showDetailPage st k) = options st"
  "detailOverlay (showDetailPage st k)"
  "backButton (showDetailPage st k)"
  "detailPage (showDetailPage st k) = map_option (\<lambda>_. Some k) (detailPage st)"
  by (simp_all add: showDetailPage_def Let_def split: option.splits)

lemma hideDetailPage_fields:
  "viewMode (hideDetailPage st) = viewMode st"
  "previousViewMode (hideDetailPage st) = previousViewMode st"
  "expandedCard (hideDetailPage st) = expandedCard st"
  "cards (hideDetailPage st) = cards st"
  "pending (hideDetailPage st) = pending st"
  "options (hideDetailPage st) = options st"
  "\<not> detailOverlay (hideDetailPage st)"
  "\<not> backButton (hideDetailPage st)"
  "detailPage (hideDetailPage st) = map_option (\<lambda>_. None) (detailPage st)"
  by (simp_all add: hideDetailPage_def Let_def split: option.splits)

lemma showInfoDisplay_fields:
  "viewMode (showInfoDisplay st) = viewMode st"
  "previousViewMode (showInfoDisplay st) = previousViewMode st"
  "expandedCard (showInfoDisplay st) = expandedCard st"
  "cards (showInfoDisplay st) = cards st"
  "detailOverlay (showInfoDisplay st) = detailOverlay st"
  "backButton (showInfoDisplay st) = backButton st"
  "detailPage (showInfoDisplay st) = detailPage st"
  "gridClones (showInfoDisplay st) = gridClones st"
  "rowOffsets (showInfoDisplay st) = rowOffsets st"
  by (simp_all add: showInfoDisplay_def split: option.splits)

lemma expandCard_fields:
  "viewMode (expandCard st c fromPos) = Expanded"
  "previousViewMode (expandCard st c fromPos) = viewMode st"
  "expandedCard (expandCard st c fromPos) = Some c"
  "detailOverlay (expandCard st c fromPos)"
  "backButton (expandCard st c fromPos)"
  "detailPage (expandCard st c fromPos) = map_option (\<lambda>_. Some c) (detailPage st)"
  by (cases fromPos; simp add: expandCard_def Let_def showDetailPage_fields)+

lemma collapseCard_fields:
  "viewMode (collapseCard st) = previousViewMode st"
  "expandedCard (collapseCard st) = None"
  "\<not> detailOverlay (collapseCard st)"
  "\<not> backButton (collapseCard st)"
  "detailPage (collapseCard st) = map_option (\<lambda>_. None) (detailPage st)"
  by (cases "expandedCard st";
      simp add: collapseCard_def Let_def hideDetailPage_fields showInfoDisplay_fields)+

text \<open>
  Claim C4. From any view mode \<open>m\<close> (stack and grid among them) and for any card \<open>c\<close>,
  whether expanded from the card or from a clone: after \<^verbatim>\<open>expandCard\<close> the view mode is
  \<^verbatim>\<open>expanded\<close>, the previous view mode is \<open>m\<close>, the expanded card is \<open>c\<close>, and the detail
  content of \<open>c\<close> has been put up (overlay and back button made, the detail page, where
  the host has one, filled for \<open>c\<close>); after \<^verbatim>\<open>collapseCard\<close> on that the view mode is \<open>m\<close>
  again, there is no expanded card, and the detail content has been taken down.
\<close>

theorem expand_then_collapse:
  "viewMode (expandCard st c fromPos) = Expanded \<and>
   previousViewMode (expandCard st c fromPos) = viewMode st \<and>
   expandedCard (expandCard st c fromPos) = Some c \<and>
   detailOverlay (expandCard st c fromPos) \<and>
   backButton (expandCard st c fromPos) \<and>
   detailPage (expandCard st c fromPos) = map_option (\<lambda>_. Some c) (detailPage st) \<and>
   viewMode (collapseCard (expandCard st c fromPos)) = viewMode st \<and>
   expandedCard (collapseCard (expandCard st c fromPos)) = None \<and>
   \<not> detailOverlay (collapseCard (expandCard st c fromPos)) \<and>
   \<not> backButton (collapseCard (expandCard st c fromPos)) \<and>
   detailPage (collapseCard (expandCard st c fromPos)) = map_option (\<lambda>_. None) (detailPage st)"
  by (simp add: expandCard_fields collapseCard_fields option.map_comp comp_def)

theorem expand_then_collapse_witness:
  "viewMode (stack_of_ranks [0, 1, 2]) = Stack \<and>
   viewMode (expandCard (stack_of_ranks [0, 1, 2]) 2 None) = Expanded \<and>
   previousViewMode (expandCard (stack_of_ranks [0, 1, 2]) 2 None) = Stack \<and>
   expandedCard (expandCard (stack_of_ranks [0, 1, 2]) 2 None) = Some 2 \<and>
   detailPage (expandCard (stack_of_ranks [0, 1, 2]) 2 None) = Some (Some 2) \<and>
   viewMode (collapseCard (expandCard (stack_of_ranks [0, 1, 2]) 2 None)) = Stack \<and>
   expandedCard (collapseCard (expandCard (stack_of_ranks [0, 1, 2]) 2 None)) = None \<and>
   detailPage (collapseCard (expandCard (stack_of_ranks [0, 1, 2]) 2 None)) = Some None"
proof -
  have v: "viewMode (stack_of_ranks [0, 1, 2]) = Stack"
    by (simp add: stack_of_ranks_def CardStack_constructor_def spawnAllCards_def
        updateSizes_def Let_def)
  have d: "detailPage (stack_of_ranks [0, 1, 2]) = Some None"
    by (simp add: stack_of_ranks_def CardStack_constructor_def spawnAllCards_def
        updateSizes_def Let_def example_window_def)
  show ?thesis
    using v d expand_then_collapse [of "stack_of_ranks [0, 1, 2]" 2 None] by simp
qed

section \<open>The grid layout\<close>

lemma floor_rem_range:
  assumes "0 < w"
  shows "0 \<le> floor_rem a w \<and> floor_rem a w < w"
proof -
  have e: "w * (a / w) = a" using assms by simp
  have "w * of_int \<lfloor>a / w\<rfloor> \<le> w * (a / w)"
    using assms by (intro mult_left_mono) simp_all
  then have "w * of_int \<lfloor>a / w\<rfloor> \<le> a" by (simp only: e)
  moreover have "a / w < of_int \<lfloor>a / w\<rfloor> + 1" by linarith
  then have "w * (a / w) < w * (of_int \<lfloor>a / w\<rfloor> + 1)"
    using assms by (intro mult_strict_left_mono) simp_all
  then have "a < w * (of_int \<lfloor>a / w\<rfloor> + 1)" by (simp only: e)
  ultimately show ?thesis by (simp add: floor_rem_def algebra_simps)
qed

lemma floor_rem_shift:
  assumes "w \<noteq> 0"
  shows "floor_rem (a + w * of_int n) w = floor_rem a w"
proof -
  have "(a + w * of_int n) / w = a / w + of_int n"
    using assms by (simp add: field_simps)
  then have "\<lfloor>(a + w * of_int n) / w\<rfloor> = \<lfloor>a / w\<rfloor> + n" by simp
  then show ?thesis by (simp add: floor_rem_def algebra_simps)
qed

lemma floor_rem_id:
  assumes "0 \<le> a" "a < w"
  shows "floor_rem a w = a"
proof -
  have "0 \<le> a / w" "a / w < 1" using assms by simp_all
  then have "\<lfloor>a / w\<rfloor> = 0" by linarith
  then show ?thesis by (simp add: floor_rem_def)
qed

lemma js_rem_bounds:
  assumes "0 < w"
  shows "\<exists>r n. js_rem a w = Some r \<and> r = a - w * of_int n \<and> - w < r \<and> r < w"
proof -
  let ?t = "js_trunc (a / w)"
  have t: "\<bar>a / w - of_int ?t\<bar> < 1"
    by (simp add: js_trunc_def) linarith
  have "a - w * of_int ?t = w * (a / w - of_int ?t)"
    using assms by (simp add: field_simps)
  then have "\<bar>a - w * of_int ?t\<bar> = w * \<bar>a / w - of_int ?t\<bar>"
    using assms by (simp add: abs_mult)
  also have "\<dots> < w * 1"
    using assms t by (intro mult_strict_left_mono) simp_all
  finally have "- w < a - w * of_int ?t \<and> a - w * of_int ?t < w" by auto
  then show ?thesis using assms by (auto simp add: js_rem_def)
qed

lemma js_rem_nonneg:
  assumes "0 < w" "0 \<le> a"
  shows "js_rem a w = Some (floor_rem a w)"
proof -
  have "\<not> a / w < 0" using assms by (simp add: not_less)
  then show ?thesis using assms by (simp add: js_rem_def js_trunc_def floor_rem_def)
qed

lemma double_rem:
  assumes "0 < w"
  shows "js_rem a w \<bind> (\<lambda>r1. js_rem (r1 + w) w) = Some (floor_rem a w)"
proof -
  from js_rem_bounds [OF assms, of a] obtain r n where
    r: "js_rem a w = Some r" "r = a - w * of_int n" "- w < r" "r < w" by blast
  have 1: "js_rem (r + w) w = Some (floor_rem (r + w) w)"
    using assms r(3) by (intro js_rem_nonneg) simp_all
  have 2: "r + w = a + w * of_int (1 - n)"
    using r(2) by (simp add: algebra_simps)
  have 3: "floor_rem (a + w * of_int (1 - n)) w = floor_rem a w"
    using assms by (intro floor_rem_shift) simp
  from 1 2 3 have "js_rem (r + w) w = Some (floor_rem a w)" by (simp only:)
  with r(1) show ?thesis by simp
qed

lemma getAdaptiveGridScale_sized:
  assumes "sized st"
  shows "\<exists>g. getAdaptiveGridScale st = Some g \<and> 0.4 \<le> g \<and> g \<le> 0.9"
proof -
  define rows where "rows = real_of_int (Math_ceil (real (length (cards st)) / 3))"
  define cardHeight where "cardHeight = baseCardHeight (options st) * scaleFactor st"
  define numerator where
    "numerator = innerHeight st * 0.75 - (rows - 1) * (16 * scaleFactor st)"
  have g: "getAdaptiveGridScale st =
     (if rows * cardHeight \<noteq> 0 then Some (clamp (numerator / (rows * cardHeight)) 0.4 0.9)
      else if numerator = 0 then None
      else if (0 < numerator) = (0 \<le> cardHeight) then Some 0.9
      else Some 0.4)"
    by (simp only: getAdaptiveGridScale_def Let_def rows_def cardHeight_def numerator_def)
  from assms have ch: "0 < cardHeight" by (simp add: sized_def cardHeight_def)
  show ?thesis
  proof (cases "rows * cardHeight = 0")
    case True
    with ch have "rows = 0" by simp
    then have "numerator = innerHeight st * 0.75 + 16 * scaleFactor st"
      by (simp add: numerator_def)
    moreover have "0 < innerHeight st * 0.75 + 16 * scaleFactor st"
      using assms by (intro add_nonneg_pos) (simp_all add: sized_def)
    ultimately have "0 < numerator" by simp
    with True ch have "getAdaptiveGridScale st = Some 0.9"
      by (simp add: g)
    moreover have "(0.4::real) \<le> 0.9 \<and> (0.9::real) \<le> 0.9" by simp
    ultimately show ?thesis by blast
  next
    case False
    then have "getAdaptiveGridScale st
        = Some (clamp (numerator / (rows * cardHeight)) 0.4 0.9)"
      by (simp add: g)
    moreover have "0.4 \<le> clamp (numerator / (rows * cardHeight)) 0.4 0.9 \<and>
        clamp (numerator / (rows * cardHeight)) 0.4 0.9 \<le> 0.9"
      by (rule clamp_bounds) simp
    ultimately show ?thesis by blast
  qed
qed

lemma cell_positive:
  assumes "sized st" "0.4 \<le> g" "g \<le> 0.9"
  shows "0 < grid_cardWidth st g + grid_gap st g"
proof -
  have "0 < grid_cardWidth st g"
    using assms by (simp add: sized_def grid_cardWidth_def)
  moreover have "0 < 1 + (g - 0.5) / (0.9 - 0.5) * 0.5"
    using assms(2) by (simp add: field_simps)
  then have "0 < grid_gap st g"
    using assms(1) by (simp only: grid_gap_def Let_def) (simp add: sized_def)
  ultimately show ?thesis by (rule add_pos_pos)
qed

lemma totalGridWidth_sized:
  assumes "sized st"
  shows "\<exists>W. totalGridWidth st = Some W \<and> 0 < W"
proof -
  from getAdaptiveGridScale_sized [OF assms] obtain g where
    g: "getAdaptiveGridScale st = Some g" "0.4 \<le> g" "g \<le> 0.9" by blast
  from cell_positive [OF assms g(2,3)] g(1) show ?thesis
    by (simp add: totalGridWidth_def Let_def)
qed

lemma wrap_x_value:
  assumes "0 < W"
  shows "wrap_x a W = Some (if floor_rem a W > W / 2 then floor_rem a W - W
                            else floor_rem a W)"
proof -
  from double_rem [OF assms, of a]
  obtain r1 where r1: "js_rem a W = Some r1"
    and x1: "js_rem (r1 + W) W = Some (floor_rem a W)"
    by (auto split: bind_splits)
  then show ?thesis by (simp add: wrap_x_def)
qed

lemma wrap_x_range:
  assumes "0 < W"
  shows "\<exists>x. wrap_x a W = Some x \<and> - W / 2 < x \<and> x \<le> W / 2"
proof -
  from floor_rem_range [OF assms, of a]
  have "0 \<le> floor_rem a W" "floor_rem a W < W" by simp_all
  then show ?thesis
    by (simp add: wrap_x_value [OF assms])
qed

lemma wrap_x_period:
  assumes "0 < W"
  shows "wrap_x (a + W) W = wrap_x a W"
proof -
  have "floor_rem (a + W * of_int 1) W = floor_rem a W"
    using assms by (intro floor_rem_shift) simp
  then have "floor_rem (a + W) W = floor_rem a W" by simp
  then show ?thesis by (simp add: wrap_x_value [OF assms])
qed

lemma getGridPosition_wrapped:
  assumes "getAdaptiveGridScale st = Some g"
  shows "\<exists>A Y R. \<forall>co. getGridPosition st i co =
           wrap_x (A + co * (grid_cardWidth st g + grid_gap st g))
                  (15 * (grid_cardWidth st g + grid_gap st g))
             \<bind> (\<lambda>x. Some \<lparr> pos_x = x, pos_y = Y, pos_row = R \<rparr>)"
proof -
  define C where "C = grid_cardWidth st g + grid_gap st g"
  define R where "R = nat (Math_floor (real i / real (3::nat)))"
  define rows where "rows = real_of_int (Math_ceil (real (length (cards st)) / real (3::nat)))"
  define cardHeight where "cardHeight = baseCardHeight (options st) * scaleFactor st * g"
  define Y where "Y = real R * (cardHeight + grid_gap st g)
      - (rows * cardHeight + (rows - 1) * grid_gap st g) / 2 + cardHeight / 2"
  define A where "A = real (i mod 3) * C
      - (real (3::nat) * grid_cardWidth st g + (real (3::nat) - 1) * grid_gap st g) / 2
      + grid_cardWidth st g / 2 + rowOffset_or_0 (rowOffsets st) (R mod 3)"
  have "getGridPosition st i co =
           wrap_x (A + co * C) (15 * C) \<bind> (\<lambda>x. Some \<lparr> pos_x = x, pos_y = Y, pos_row = R \<rparr>)"
    for co
  proof -
    have x: "(real (i mod 3) + co) * C
      - (real (3::nat) * grid_cardWidth st g + (real (3::nat) - 1) * grid_gap st g) / 2
      + grid_cardWidth st g / 2 + rowOffset_or_0 (rowOffsets st) (R mod 3) = A + co * C"
      by (simp add: A_def algebra_simps)
    have w: "real (3::nat) * 5 * C = 15 * C" by simp
    show ?thesis
      unfolding getGridPosition_def Let_def assms
      by (simp only: bind.bind_lunit C_def [symmetric] R_def [symmetric] rows_def [symmetric]
          cardHeight_def [symmetric] Y_def [symmetric] x w)
  qed
  then show ?thesis unfolding C_def by blast
qed

lemma getGridPosition_period_range:
  assumes "sized st"
  shows "getGridPosition st i (colOff + 15) = getGridPosition st i colOff"
    and "\<exists>p W. getGridPosition st i colOff = Some p \<and> totalGridWidth st = Some W \<and>
                 0 < W \<and> - W / 2 < pos_x p \<and> pos_x p \<le> W / 2"
proof -
  from getAdaptiveGridScale_sized [OF assms] obtain g where
    g: "getAdaptiveGridScale st = Some g" "0.4 \<le> g" "g \<le> 0.9" by blast
  define C where "C = grid_cardWidth st g + grid_gap st g"
  from cell_positive [OF assms g(2,3)] have W: "0 < 15 * C" by (simp add: C_def)
  have tw: "totalGridWidth st = Some (15 * C)"
    by (simp add: totalGridWidth_def Let_def g(1) C_def)
  from getGridPosition_wrapped [OF g(1), of i] obtain A Y R where
    p: "\<And>co. getGridPosition st i co =
           wrap_x (A + co * C) (15 * C) \<bind> (\<lambda>x. Some \<lparr> pos_x = x, pos_y = Y, pos_row = R \<rparr>)"
    unfolding C_def by blast
  have "A + (colOff + 15) * C = (A + colOff * C) + 15 * C"
    by (simp add: algebra_simps)
  then have "wrap_x (A + (colOff + 15) * C) (15 * C) = wrap_x (A + colOff * C) (15 * C)"
    using wrap_x_period [OF W, of "A + colOff * C"] by (simp only:)
  then show "getGridPosition st i (colOff + 15) = getGridPosition st i colOff"
    by (simp only: p)
  from wrap_x_range [OF W, of "A + colOff * C"] obtain x where
    x: "wrap_x (A + colOff * C) (15 * C) = Some x" "- (15 * C) / 2 < x" "x \<le> 15 * C / 2"
    by blast
  have "getGridPosition st i colOff = Some \<lparr> pos_x = x, pos_y = Y, pos_row = R \<rparr>"
    by (simp add: p x(1))
  with x(2,3) tw W show "\<exists>p W. getGridPosition st i colOff = Some p \<and>
      totalGridWidth st = Some W \<and> 0 < W \<and> - W / 2 < pos_x p \<and> pos_x p \<le> W / 2"
    by simp
qed

lemmas example_defs = stack_of_ranks_def CardStack_constructor_def example_host_def
  example_window_def spawnAllCards_def updateSizes_def Let_def clamp_def new_Card_def upt_rec





subsection \<open>Rounding\<close>





















subsection \<open>The wrap on doubles\<close>







section \<open>Switching between stack and grid\<close>

lemma wrap_down_terminates:
  assumes "0 < g"
  shows "\<exists>r. wrap_down w g = Some r"
proof -
  have step: "\<exists>r. wrap_down w g = Some r" if "w \<le> g / 2 + real n * g" for n w
    using that
  proof (induction n arbitrary: w)
    case 0
    then have "\<not> w > g / 2" by simp
    then have "wrap_down w g = Some w" by (subst wrap_down.simps) simp
    then show ?case by blast
  next
    case (Suc n)
    show ?case
    proof (cases "w > g / 2")
      case True
      have "w - g \<le> g / 2 + real n * g" using Suc.prems by (simp add: algebra_simps)
      from Suc.IH [OF this] obtain r where "wrap_down (w - g) g = Some r" ..
      with True have "wrap_down w g = Some r" by (subst wrap_down.simps) simp
      then show ?thesis by blast
    next
      case False
      then have "wrap_down w g = Some w" by (subst wrap_down.simps) simp
      then show ?thesis by blast
    qed
  qed
  from reals_Archimedean3 [OF assms] obtain n where "w < real n * g" by blast
  then have "w \<le> g / 2 + real n * g" using assms by simp
  then show ?thesis by (rule step)
qed

lemma wrap_up_terminates:
  assumes "0 < g"
  shows "\<exists>r. wrap_up w g = Some r"
proof -
  have step: "\<exists>r. wrap_up w g = Some r" if "- g / 2 - real n * g \<le> w" for n w
    using that
  proof (induction n arbitrary: w)
    case 0
    then have "\<not> w < - g / 2" by simp
    then have "wrap_up w g = Some w" by (subst wrap_up.simps) simp
    then show ?case by blast
  next
    case (Suc n)
    show ?case
    proof (cases "w < - g / 2")
      case True
      have "- g / 2 - real n * g \<le> w + g" using Suc.prems by (simp add: algebra_simps)
      from Suc.IH [OF this] obtain r where "wrap_up (w + g) g = Some r" ..
      with True have "wrap_up w g = Some r" by (subst wrap_up.simps) simp
      then show ?thesis by blast
    next
      case False
      then have "wrap_up w g = Some w" by (subst wrap_up.simps) simp
      then show ?thesis by blast
    qed
  qed
  from reals_Archimedean3 [OF assms] obtain n where "- w < real n * g" by blast
  then have "- g / 2 - real n * g \<le> w" using assms by simp
  then show ?thesis by (rule step)
qed

lemma getGridPosition_cards_irrelevant:
  "length cs = length (cards st) \<Longrightarrow> getGridPosition (st\<lparr>cards := cs\<rparr>) = getGridPosition st"
  by (rule ext, rule ext)
     (simp add: getGridPosition_def getAdaptiveGridScale_def grid_cardWidth_def grid_gap_def)

lemma prepareStackFromGrid_loop_Some:
  assumes "sized st" "0 < gw"
  shows "\<exists>cs'. prepareStackFromGrid_loop st gw cs = Some cs' \<and> length cs' = length cs"
proof (induction cs)
  case Nil
  then show ?case by simp
next
  case (Cons c cs)
  from getGridPosition_period_range(2) [OF assms(1), of "index c" 0]
  obtain p where p: "getGridPosition st (index c) 0 = Some p" by blast
  from wrap_down_terminates [OF assms(2), of "pos_x p"]
  obtain w1 where w1: "wrap_down (pos_x p) gw = Some w1" ..
  from wrap_up_terminates [OF assms(2), of w1]
  obtain w2 where w2: "wrap_up w1 gw = Some w2" ..
  from Cons.IH obtain cs' where "prepareStackFromGrid_loop st gw cs = Some cs'"
    "length cs' = length cs" by blast
  with p w1 w2 show ?case by simp
qed

lemma prepareStackFromGrid_Some:
  assumes "sized st"
  shows "\<exists>cs'. prepareStackFromGrid st = Some (st\<lparr>cards := cs'\<rparr>) \<and>
               length cs' = length (cards st)"
proof -
  from getAdaptiveGridScale_sized [OF assms] obtain g where
    g: "getAdaptiveGridScale st = Some g" "0.4 \<le> g" "g \<le> 0.9" by blast
  from cell_positive [OF assms g(2,3)]
  have "0 < 3 * (grid_cardWidth st g + grid_gap st g)" by simp
  from prepareStackFromGrid_loop_Some [OF assms this, of "cards st"]
  obtain cs' where "prepareStackFromGrid_loop st (3 * (grid_cardWidth st g + grid_gap st g))
      (cards st) = Some cs'" "length cs' = length (cards st)" by blast
  then have "prepareStackFromGrid st = Some (st\<lparr>cards := cs'\<rparr>) \<and>
               length cs' = length (cards st)"
    by (simp add: prepareStackFromGrid_def g(1) Let_def)
  then show ?thesis by blast
qed

lemma sized_cong:
  "scaleFactor st' = scaleFactor st \<Longrightarrow> options st' = options st \<Longrightarrow>
   innerHeight st' = innerHeight st \<Longrightarrow> sized st' = sized st"
  by (simp add: sized_def)

lemma length_createGridClones_loop:
  "length (createGridClones_loop k e cs) = 4 * length cs"
  by (induction cs arbitrary: k e) simp_all

lemma updateInfoDisplay_grid_fields:
  "gridClones (updateInfoDisplay st k b) = gridClones st"
  "rowOffsets (updateInfoDisplay st k b) = rowOffsets st"
  "scaleFactor (updateInfoDisplay st k b) = scaleFactor st"
  "options (updateInfoDisplay st k b) = options st"
  "innerHeight (updateInfoDisplay st k b) = innerHeight st"
  by (simp_all add: updateInfoDisplay_def Let_def split: option.splits)

lemma showInfoDisplay_size_fields:
  "scaleFactor (showInfoDisplay st) = scaleFactor st"
  "options (showInfoDisplay st) = options st"
  "innerHeight (showInfoDisplay st) = innerHeight st"
  by (simp_all add: showInfoDisplay_def split: option.splits)

lemma hideGridHoverInfo_fields:
  "viewMode (hideGridHoverInfo st) = viewMode st"
  "cards (hideGridHoverInfo st) = cards st"
  "gridClones (hideGridHoverInfo st) = gridClones st"
  "rowOffsets (hideGridHoverInfo st) = rowOffsets st"
  "scaleFactor (hideGridHoverInfo st) = scaleFactor st"
  "options (hideGridHoverInfo st) = options st"
  "innerHeight (hideGridHoverInfo st) = innerHeight st"
  by (simp_all add: hideGridHoverInfo_def split: option.splits)

text \<open>From stack mode \<^verbatim>\<open>toggleViewMode\<close> enters the grid with four clones for each card.\<close>

lemma toggleViewMode_from_stack:
  assumes "viewMode st = Stack"
  shows "\<exists>st'. toggleViewMode st = Some st' \<and> viewMode st' = Grid \<and>
           rowOffsets st' = [0, 0, 0] \<and> length (gridClones st') = 4 * length (cards st) \<and>
           cards st' = cards st \<and> sized st' = sized st"
  using assms
  by (simp add: toggleViewMode_def hideGridHoverInfo_fields createGridClones_def
      length_createGridClones_loop sized_def)

text \<open>From any other mode it returns to the stack and leaves no clone.\<close>

lemma toggleViewMode_to_stack:
  assumes "viewMode st \<noteq> Stack" "sized st"
  shows "\<exists>st'. toggleViewMode st = Some st' \<and> viewMode st' = Stack \<and>
           rowOffsets st' = rowOffsets st \<and> gridClones st' = [] \<and>
           length (cards st') = length (cards st) \<and> sized st'"
proof -
  from prepareStackFromGrid_Some [OF assms(2)] obtain cs' where
    p: "prepareStackFromGrid st = Some (st\<lparr>cards := cs'\<rparr>)" "length cs' = length (cards st)"
    by blast
  let ?st2 = "(destroyGridClones (st\<lparr>cards := cs'\<rparr>))\<lparr>viewMode := Stack\<rparr>"
  let ?st3 = "(case find_zIndex (int (length (cards ?st2)) - 1) 0 (cards ?st2) of
                 None \<Rightarrow> ?st2 | Some t \<Rightarrow> updateInfoDisplay ?st2 t True)"
  have t: "toggleViewMode st = Some (showInfoDisplay ?st3)"
    using assms(1) by (simp add: toggleViewMode_def p(1) Let_def)
  have "viewMode ?st3 = Stack" "rowOffsets ?st3 = rowOffsets st" "gridClones ?st3 = []"
    "cards ?st3 = cs'" "scaleFactor ?st3 = scaleFactor st" "options ?st3 = options st"
    "innerHeight ?st3 = innerHeight st"
    by (simp_all add: destroyGridClones_def updateInfoDisplay_keeps
        updateInfoDisplay_grid_fields cards_updateInfoDisplay split: option.splits)
  then have "viewMode (showInfoDisplay ?st3) = Stack \<and>
      rowOffsets (showInfoDisplay ?st3) = rowOffsets st \<and>
      gridClones (showInfoDisplay ?st3) = [] \<and>
      length (cards (showInfoDisplay ?st3)) = length (cards st) \<and>
      sized (showInfoDisplay ?st3)"
    using p(2) assms(2)
    by (simp add: showInfoDisplay_fields showInfoDisplay_size_fields sized_def)
  with t show ?thesis by blast
qed

lemma run_append: "run st (evs @ evs') = run st evs \<bind> (\<lambda>s. run s evs')"
  by (induction evs arbitrary: st) (simp_all split: bind_splits)

text \<open>
  Claim C6 asks that from stack mode and from grid mode two calls of \<^verbatim>\<open>toggleViewMode\<close>
  lead back to the mode they began in, with no grid clone and the row offsets
  \<open>[0, 0, 0]\<close>. From grid mode they do not: the default page spawns its eight cards and
  is switched to the grid; two more calls leave it in the grid with 32 clones.
\<close>

theorem toggleViewMode_twice_counterexample:
  "map_option viewMode
     (run (CardStack_constructor example_host (example_window 1280 800))
        [TimerRuns 0, TimerRuns 0, TimerRuns 0, TimerRuns 0,
         TimerRuns 0, TimerRuns 0, TimerRuns 0, TimerRuns 0,
         ToggleViewMode]) = Some Grid \<and>
   map_option (\<lambda>s. (viewMode s, length (gridClones s), rowOffsets s))
     (run (CardStack_constructor example_host (example_window 1280 800))
        ([TimerRuns 0, TimerRuns 0, TimerRuns 0, TimerRuns 0,
          TimerRuns 0, TimerRuns 0, TimerRuns 0, TimerRuns 0,
          ToggleViewMode] @ [ToggleViewMode, ToggleViewMode])) = Some (Grid, 32, [0, 0, 0])"
proof -
  let ?pre = "[TimerRuns 0, TimerRuns 0, TimerRuns 0, TimerRuns 0,
         TimerRuns 0, TimerRuns 0, TimerRuns 0, TimerRuns 0, ToggleViewMode]"
  let ?st0 = "CardStack_constructor example_host (example_window 1280 800)"
  have "map_option (\<lambda>s. (viewMode s, length (cards s), sized s)) (run ?st0 ?pre)
      = Some (Grid, 8, True)"
    by (simp add: run_defs sized_def)
  then obtain G where G: "run ?st0 ?pre = Some G" "viewMode G = Grid"
    "length (cards G) = 8" "sized G" by auto
  from G(2) have "viewMode G \<noteq> Stack" by simp
  from toggleViewMode_to_stack [OF this G(4)] obtain st1 where
    1: "toggleViewMode G = Some st1" "viewMode st1 = Stack"
       "length (cards st1) = length (cards G)" by auto
  from toggleViewMode_from_stack [OF 1(2)] 1(3) G(3) obtain st2 where
    2: "toggleViewMode st1 = Some st2" "viewMode st2 = Grid" "rowOffsets st2 = [0, 0, 0]"
    "length (gridClones st2) = 32" by auto
  have "run G [ToggleViewMode, ToggleViewMode] = Some st2"
    by (simp add: step_def 1(1) 2(1))
  then have "run ?st0 (?pre @ [ToggleViewMode, ToggleViewMode]) = Some st2"
    by (simp only: run_append G(1) bind.bind_lunit)
  with G(1,2) 2 show ?thesis by simp
qed

text \<open>
  Claim C6, amended. In a controller whose sizes are in order, two calls of
  \<^verbatim>\<open>toggleViewMode\<close> in a row return a controller. Begun in stack mode, they end in stack
  mode with no grid clone and the row offsets \<open>[0, 0, 0]\<close>. Begun in grid mode, they end
  in grid mode with the row offsets \<open>[0, 0, 0]\<close> and four new clones for each card.
\<close>

theorem toggleViewMode_twice:
  assumes "sized st"
  shows "(viewMode st = Stack \<longrightarrow>
            (\<exists>st'. toggleViewMode st \<bind> toggleViewMode = Some st' \<and>
                   viewMode st' = Stack \<and> gridClones st' = [] \<and>
                   rowOffsets st' = [0, 0, 0])) \<and>
         (viewMode st = Grid \<longrightarrow>
            (\<exists>st'. toggleViewMode st \<bind> toggleViewMode = Some st' \<and>
                   viewMode st' = Grid \<and> length (gridClones st') = 4 * length (cards st) \<and>
                   rowOffsets st' = [0, 0, 0]))"
proof (intro conjI impI)
  assume s: "viewMode st = Stack"
  from toggleViewMode_from_stack [OF s] assms obtain st1 where
    1: "toggleViewMode st = Some st1" "viewMode st1 = Grid" "rowOffsets st1 = [0, 0, 0]"
       "sized st1" by auto
  from 1(2) have "viewMode st1 \<noteq> Stack" by simp
  from toggleViewMode_to_stack [OF this 1(4)] 1(3) obtain st2 where
    "toggleViewMode st1 = Some st2" "viewMode st2 = Stack" "rowOffsets st2 = [0, 0, 0]"
    "gridClones st2 = []" by auto
  with 1(1) show "\<exists>st'. toggleViewMode st \<bind> toggleViewMode = Some st' \<and>
                   viewMode st' = Stack \<and> gridClones st' = [] \<and>
                   rowOffsets st' = [0, 0, 0]" by simp
next
  assume g: "viewMode st = Grid"
  then have "viewMode st \<noteq> Stack" by simp
  from toggleViewMode_to_stack [OF this assms] obtain st1 where
    1: "toggleViewMode st = Some st1" "viewMode st1 = Stack"
       "length (cards st1) = length (cards st)" by auto
  from toggleViewMode_from_stack [OF 1(2)] 1(3) obtain st2 where
    "toggleViewMode st1 = Some st2" "viewMode st2 = Grid" "rowOffsets st2 = [0, 0, 0]"
    "length (gridClones st2) = 4 * length (cards st)" by auto
  with 1(1) show "\<exists>st'. toggleViewMode st \<bind> toggleViewMode = Some st' \<and>
                   viewMode st' = Grid \<and> length (gridClones st') = 4 * length (cards st) \<and>
                   rowOffsets st' = [0, 0, 0]" by simp
qed

theorem toggleViewMode_twice_witness:
  "sized (stack_of_ranks [1, 2, 0]) \<and> viewMode (stack_of_ranks [1, 2, 0]) = Stack \<and>
   map_option (\<lambda>s. (viewMode s, gridClones s, rowOffsets s))
     (toggleViewMode (stack_of_ranks [1, 2, 0]) \<bind> toggleViewMode) = Some (Stack, [], [0, 0, 0]) \<and>
   sized hovered_grid_stack \<and> viewMode hovered_grid_stack = Grid \<and>
   map_option (\<lambda>s. (viewMode s, length (gridClones s), rowOffsets s))
     (toggleViewMode hovered_grid_stack \<bind> toggleViewMode) = Some (Grid, 12, [0, 0, 0])"
proof -
  have s1: "sized (stack_of_ranks [1, 2, 0])"
    by (simp add: sized_def example_defs)
  have v1: "viewMode (stack_of_ranks [1, 2, 0]) = Stack"
    by (simp add: example_defs)
  have s2: "sized hovered_grid_stack"
    by (simp add: sized_def hovered_grid_stack_def example_defs)
  have v2: "viewMode hovered_grid_stack = Grid"
    by (simp add: hovered_grid_stack_def)
  have n: "length (cards hovered_grid_stack) = 3"
    by (simp add: cards_hovered_grid_stack cards_stack_of_ranks)
  from toggleViewMode_twice [OF s1] v1
  have 1: "map_option (\<lambda>s. (viewMode s, gridClones s, rowOffsets s))
     (toggleViewMode (stack_of_ranks [1, 2, 0]) \<bind> toggleViewMode) = Some (Stack, [], [0, 0, 0])"
    by auto
  from toggleViewMode_twice [OF s2] v2 n
  have 2: "map_option (\<lambda>s. (viewMode s, length (gridClones s), rowOffsets s))
     (toggleViewMode hovered_grid_stack \<bind> toggleViewMode) = Some (Grid, 12, [0, 0, 0])"
    by auto
  from s1 v1 1 s2 v2 2 show ?thesis by blast
qed

section \<open>Distance to rank\<close>









section \<open>Construction\<close>




text \<open>
  The only errors of a construction are the two of the language: a \<^verbatim>\<open>null\<close> options
  argument, and a container that is no element.
\<close>

lemma construction_TypeError:
  "construction container Null w = Inl TypeError"
  "construction False arg w = Inl TypeError"
  "construction True Omitted w = Inr (CardStack_constructor no_options w)"
  by (simp_all add: construction_def split: optionsArgument.splits)

section \<open>What the operations leave alone\<close>

lemma in_order_geometry: "geometry st' = geometry st \<Longrightarrow> in_order st' = in_order st"
  by (simp add: geometry_def in_order_def sized_def)

lemma geometry_upd_card [simp]: "geometry (upd_card st k f) = geometry st"
  by (simp add: geometry_def upd_card_def)

lemma geometry_updateInfoDisplay [simp]: "geometry (updateInfoDisplay st k b) = geometry st"
  by (simp add: geometry_def updateInfoDisplay_def Let_def split: option.splits)

lemma geometry_showInfoDisplay [simp]: "geometry (showInfoDisplay st) = geometry st"
  by (simp add: geometry_def showInfoDisplay_def split: option.splits)

lemma geometry_hideGridHoverInfo [simp]: "geometry (hideGridHoverInfo st) = geometry st"
  by (simp add: geometry_def hideGridHoverInfo_def split: option.splits)

lemma geometry_showGridHoverInfo [simp]: "geometry (showGridHoverInfo st k) = geometry st"
  by (simp add: geometry_def showGridHoverInfo_def split: option.splits)

lemma geometry_cards_update [simp]: "geometry (st\<lparr>cards := cs\<rparr>) = geometry st"
  by (simp add: geometry_def)

lemma geometry_bringToFront [simp]: "geometry (bringToFront st k) = geometry st"
  by (simp add: bringToFront_def Let_def)

lemma geometry_updateCardOrder [simp]: "geometry (updateCardOrder st k m) = geometry st"
  by (simp add: updateCardOrder_def Let_def split: option.splits)

lemma geometry_showDetailPage [simp]: "geometry (showDetailPage st k) = geometry st"
  by (simp add: geometry_def showDetailPage_def Let_def split: option.splits)

lemma geometry_hideDetailPage [simp]: "geometry (hideDetailPage st) = geometry st"
  by (simp add: geometry_def hideDetailPage_def Let_def split: option.splits)

lemma geometry_expandCard [simp]: "geometry (expandCard st k fp) = geometry st"
proof -
  have g: "geometry (s\<lparr>pending := p\<rparr>) = geometry s"
    "geometry (s\<lparr>viewMode := v, expandedCard := e\<rparr>) = geometry s"
    "geometry (s\<lparr>previousViewMode := v\<rparr>) = geometry s"
    "geometry (s\<lparr>expandedFromCloneOffset := r, expandedCardIndex := i\<rparr>) = geometry s"
    for s p v e r i
    by (simp_all add: geometry_def)
  show ?thesis
    by (cases fp) (simp_all add: expandCard_def Let_def g)
qed

lemma geometry_collapseCard [simp]: "geometry (collapseCard st) = geometry st"
proof -
  have g: "geometry (s\<lparr>pending := p\<rparr>) = geometry s"
    "geometry (s\<lparr>viewMode := v\<rparr>) = geometry s"
    "geometry (s\<lparr>expandedCard := e\<rparr>) = geometry s"
    for s p v e
    by (simp_all add: geometry_def)
  show ?thesis
    by (cases "expandedCard st") (simp_all add: collapseCard_def Let_def g)
qed

lemma geometry_onPointerDown [simp]: "geometry (onPointerDown st k cx cy) = geometry st"
  by (simp add: onPointerDown_def Let_def split: prod.splits)

lemma geometry_onPointerMove [simp]: "geometry (onPointerMove st k cx cy) = geometry st"
proof -
  have g: "geometry (s\<lparr>dragTip := t, hasVisited := h\<rparr>) = geometry s" for s t h
    by (simp add: geometry_def)
  show ?thesis
    by (simp add: onPointerMove_def Let_def g split: prod.splits)
qed

lemma geometry_onPointerUp [simp]: "geometry (onPointerUp st k) = geometry st"
  by (simp add: onPointerUp_def)

lemma geometry_onMouseEnter [simp]: "geometry (onMouseEnter st k) = geometry st"
proof -
  have g: "geometry (s\<lparr>gridHoveredElement := e, gridTargetSpeed := r\<rparr>) = geometry s" for s e r
    by (simp add: geometry_def)
  show ?thesis by (simp add: onMouseEnter_def g)
qed

lemma geometry_onMouseLeave [simp]: "geometry (onMouseLeave st k) = geometry st"
proof -
  have g: "geometry (s\<lparr>gridHoveredElement := e, gridTargetSpeed := r\<rparr>) = geometry s" for s e r
    by (simp add: geometry_def)
  show ?thesis by (simp add: onMouseLeave_def g)
qed

lemma geometry_toggleViewMode:
  assumes "toggleViewMode st = Some st'"
  shows "geometry st' = geometry st"
proof (cases "viewMode st = Stack")
  case True
  have g: "geometry (createGridClones s) = geometry s"
    "geometry (s\<lparr>viewMode := v, rowOffsets := r, expandedFromCloneOffset := a,
                 expandedCardIndex := i\<rparr>) = geometry s" for s v r a i
    by (simp_all add: geometry_def createGridClones_def)
  from assms True show ?thesis by (auto simp add: toggleViewMode_def g)
next
  case False
  have g: "geometry ((destroyGridClones s)\<lparr>viewMode := v\<rparr>) = geometry s" for s v
    by (simp add: geometry_def destroyGridClones_def)
  from assms False obtain st1 where
    1: "prepareStackFromGrid st = Some st1"
    and 2: "st' = showInfoDisplay
         (case find_zIndex (int (length (cards ((destroyGridClones st1)\<lparr>viewMode := Stack\<rparr>))) - 1)
                 0 (cards ((destroyGridClones st1)\<lparr>viewMode := Stack\<rparr>)) of
            None \<Rightarrow> (destroyGridClones st1)\<lparr>viewMode := Stack\<rparr>
          | Some t \<Rightarrow> updateInfoDisplay ((destroyGridClones st1)\<lparr>viewMode := Stack\<rparr>) t True)"
    by (auto simp add: toggleViewMode_def Let_def split: bind_splits)
  from 1 have "geometry st1 = geometry st"
    by (auto simp add: prepareStackFromGrid_def Let_def split: bind_splits)
  with 2 show ?thesis by (simp add: g split: option.splits)
qed

end
